theory Spec2Isabelle
  imports Main "HOL-Library.AList"
begin

section \<open>Values of the host language\<close>

text \<open>
  The client is TypeScript. A value of type \<^verbatim>\<open>unknown\<close> (what \<^verbatim>\<open>JSON.parse\<close> returns, what
  the fields of a request body hold) is a \<open>jsval\<close>. Numbers are kept abstract (the type
  parameter \<open>'n\<close>): the client never computes with one, it only stores them and turns them
  into text. An object is the list of its own enumerable properties, in property order.
  A function is given by its source text; the client never calls one.
\<close>

datatype 'n jsval =
    JUndefined
  | JNull
  | JBoolean bool
  | JNumber 'n
  | JBigInt int
  | JFunction string
  | JString string
  | JArray "'n jsval list"
  | JObject "(string \<times> 'n jsval) list"

text \<open>The \<^verbatim>\<open>typeof\<close> operator.\<close>

fun typeof :: "'n jsval \<Rightarrow> string" where
  "typeof JUndefined = ''undefined''"
| "typeof JNull = ''object''"
| "typeof (JBoolean b) = ''boolean''"
| "typeof (JNumber n) = ''number''"
| "typeof (JBigInt i) = ''bigint''"
| "typeof (JFunction f) = ''function''"
| "typeof (JString s) = ''string''"
| "typeof (JArray vs) = ''object''"
| "typeof (JObject ps) = ''object''"

text \<open>
  A property read \<^verbatim>\<open>o[k]\<close>. For an object it is the own property, else \<^verbatim>\<open>undefined\<close>: the two
  names the client reads, \<^verbatim>\<open>message\<close> and \<^verbatim>\<open>code\<close>, are not properties of \<^verbatim>\<open>Object.prototype\<close>,
  nor of an array or a primitive.
\<close>

fun get_property :: "'n jsval \<Rightarrow> string \<Rightarrow> 'n jsval" where
  "get_property (JObject ps) k = (case map_of ps k of Some v \<Rightarrow> v | None \<Rightarrow> JUndefined)"
| "get_property v k = JUndefined"

text \<open>
  The properties every object literal inherits from \<^verbatim>\<open>Object.prototype\<close>, and the \<^verbatim>\<open>in\<close>
  operator on an object literal with the own keys \<open>own\<close>: \<^verbatim>\<open>k in o\<close> holds for an own key
  and for an inherited one.
\<close>

definition Object_prototype_keys :: "string list" where
  "Object_prototype_keys =
     [''constructor'', ''__defineGetter__'', ''__defineSetter__'', ''hasOwnProperty'',
      ''__lookupGetter__'', ''__lookupSetter__'', ''isPrototypeOf'', ''propertyIsEnumerable'',
      ''toString'', ''valueOf'', ''__proto__'', ''toLocaleString'']"

definition key_in :: "string \<Rightarrow> string list \<Rightarrow> bool" where
  "key_in k own \<longleftrightarrow> k \<in> set own \<or> k \<in> set Object_prototype_keys"

text \<open>
  Modelled from the spec: \<^verbatim>\<open>isObject\<close> of \<^verbatim>\<open>src/utils/utils\<close>, which \<^verbatim>\<open>errors.ts\<close> imports and
  the sources do not hold. The spec calls what it accepts "a plain key-value mapping".
\<close>

fun isObject :: "'n jsval \<Rightarrow> bool" where
  "isObject (JObject ps) = True"
| "isObject v = False"

section \<open>The platform\<close>

text \<open>
  What the client calls and does not define: \<^verbatim>\<open>JSON.parse\<close>, \<^verbatim>\<open>JSON.stringify\<close>, the \<^verbatim>\<open>URL\<close>
  constructor and serializer, \<^verbatim>\<open>decodeURIComponent\<close> and the conversion of a number to
  text. Each is a parameter; one that can throw returns the thrown value on the left.
  \<^verbatim>\<open>JSON.stringify\<close> of an object returns a string, or \<^verbatim>\<open>undefined\<close> (\<open>None\<close>) when the
  object's \<^verbatim>\<open>toJSON\<close> method returns \<^verbatim>\<open>undefined\<close>.
  A \<open>URL\<close> is what the client touches of one: the text before the query, the entries of
  \<^verbatim>\<open>searchParams\<close> in order (those the parsed text already held first), and the fragment.
\<close>

record URL =
  location :: string
  searchParams :: "(string \<times> string) list"
  hash :: string

record ('e, 'n) platform =
  JSON_parse :: "string \<Rightarrow> 'e + 'n jsval"
  JSON_stringify :: "(string \<times> 'n jsval) list \<Rightarrow> 'e + string option"
  new_URL :: "string \<Rightarrow> 'e + URL"
  URL_toString :: "URL \<Rightarrow> string"
  decodeURIComponent :: "string \<Rightarrow> 'e + string"
  number_toString :: "'n \<Rightarrow> string"

text \<open>\<^verbatim>\<open>url.searchParams.append(key, value)\<close> adds one entry at the end.\<close>

definition searchParams_append :: "URL \<Rightarrow> string \<Rightarrow> string \<Rightarrow> URL" where
  "searchParams_append url key val = url\<lparr>searchParams := searchParams url @ [(key, val)]\<rparr>"

section \<open>errors.ts\<close>

datatype APIErrorCode =
    Unauthorized
  | RestrictedResource
  | ObjectNotFound
  | RateLimited
  | InvalidJSON
  | InvalidRequestURL
  | InvalidRequest
  | ValidationError
  | ConflictError
  | InternalServerError
  | ServiceUnavailable

fun APIErrorCode_value :: "APIErrorCode \<Rightarrow> string" where
  "APIErrorCode_value Unauthorized = ''unauthorized''"
| "APIErrorCode_value RestrictedResource = ''restricted_resource''"
| "APIErrorCode_value ObjectNotFound = ''object_not_found''"
| "APIErrorCode_value RateLimited = ''rate_limited''"
| "APIErrorCode_value InvalidJSON = ''invalid_json''"
| "APIErrorCode_value InvalidRequestURL = ''invalid_request_url''"
| "APIErrorCode_value InvalidRequest = ''invalid_request''"
| "APIErrorCode_value ValidationError = ''validation_error''"
| "APIErrorCode_value ConflictError = ''conflict_error''"
| "APIErrorCode_value InternalServerError = ''internal_server_error''"
| "APIErrorCode_value ServiceUnavailable = ''service_unavailable''"

datatype ClientErrorCode = RequestTimeout | ResponseError

fun ClientErrorCode_value :: "ClientErrorCode \<Rightarrow> string" where
  "ClientErrorCode_value RequestTimeout = ''request_timeout''"
| "ClientErrorCode_value ResponseError = ''response_error''"

text \<open>The own keys of the object literal \<^verbatim>\<open>apiErrorCodes\<close>, in the order it is written.\<close>

definition apiErrorCodes :: "string list" where
  "apiErrorCodes = map APIErrorCode_value
     [Unauthorized, RestrictedResource, ObjectNotFound, RateLimited, InvalidJSON,
      InvalidRequestURL, InvalidRequest, ValidationError, ConflictError,
      InternalServerError, ServiceUnavailable]"

text \<open>
  The fields of an \<^verbatim>\<open>HTTPResponseError\<close>, named as the constructor's argument names them.
  At run time \<open>code\<close> is a string, whatever the type annotation says.
\<close>

record 'n HTTPResponseError =
  code :: string
  status :: 'n
  message :: string
  headers :: "(string \<times> string) list"
  rawBodyText :: string

text \<open>
  Everything the request operation can throw: the three classes that extend
  \<^verbatim>\<open>clientBaseError\<close>, and \<open>Raised e\<close> for a value \<open>e\<close> that some other party threw
  (the platform, the transport, the response's text read).
\<close>

datatype ('e, 'n) thrown =
    RequestTimeoutError string
  | UnknownHTTPResponseError "'n HTTPResponseError"
  | APIResponseError "'n HTTPResponseError"
  | Raised 'e

fun error_name :: "('e, 'n) thrown \<Rightarrow> string option" where
  "error_name (RequestTimeoutError m) = Some ''RequestTimeoutError''"
| "error_name (UnknownHTTPResponseError h) = Some ''UnknownHTTPResponseError''"
| "error_name (APIResponseError h) = Some ''APIResponseError''"
| "error_name (Raised e) = None"

fun error_code :: "('e, 'n) thrown \<Rightarrow> string option" where
  "error_code (RequestTimeoutError m) = Some (ClientErrorCode_value RequestTimeout)"
| "error_code (UnknownHTTPResponseError h) = Some (code h)"
| "error_code (APIResponseError h) = Some (code h)"
| "error_code (Raised e) = None"

text \<open>\<^verbatim>\<open>isObject(error) && error instanceof clientBaseError\<close>.\<close>

fun isClientError :: "('e, 'n) thrown \<Rightarrow> bool" where
  "isClientError (RequestTimeoutError m) = True"
| "isClientError (UnknownHTTPResponseError h) = True"
| "isClientError (APIResponseError h) = True"
| "isClientError (Raised e) = False"

text \<open>\<^verbatim>\<open>new RequestTimeoutError()\<close>, with the default message.\<close>

definition new_RequestTimeoutError :: "('e, 'n) thrown" where
  "new_RequestTimeoutError = RequestTimeoutError ''Request has timed out''"

text \<open>
  \<^verbatim>\<open>new UnknownHTTPResponseError(args)\<close>: the code is \<^verbatim>\<open>response_error\<close>, and a missing message
  is replaced by the template literal, which converts the status to text.
\<close>

definition new_UnknownHTTPResponseError ::
  "('e, 'n) platform \<Rightarrow> 'n \<Rightarrow> string option \<Rightarrow> (string \<times> string) list \<Rightarrow> string
     \<Rightarrow> ('e, 'n) thrown" where
  "new_UnknownHTTPResponseError P st msg hs raw =
     UnknownHTTPResponseError
       \<lparr>code = ClientErrorCode_value ResponseError,
        status = st,
        message = (case msg of
                     Some m \<Rightarrow> m
                   | None \<Rightarrow> ''Request failed with status: '' @ number_toString P st),
        headers = hs,
        rawBodyText = raw\<rparr>"

definition new_APIResponseError ::
  "string \<Rightarrow> string \<Rightarrow> (string \<times> string) list \<Rightarrow> 'n \<Rightarrow> string \<Rightarrow> ('e, 'n) thrown" where
  "new_APIResponseError c msg hs st raw =
     APIResponseError \<lparr>code = c, status = st, message = msg, headers = hs, rawBodyText = raw\<rparr>"

text \<open>\<^verbatim>\<open>typeof code === "string" && code in apiErrorCodes\<close>.\<close>

fun isAPIErrorCode :: "'n jsval \<Rightarrow> bool" where
  "isAPIErrorCode (JString c) = key_in c apiErrorCodes"
| "isAPIErrorCode v = False"

text \<open>
  \<^verbatim>\<open>parseAPIErrorResponseBody\<close>. The argument is a string by its type, so the first test of
  the source (\<^verbatim>\<open>typeof body !== "string"\<close>) never fires. A \<^verbatim>\<open>JSON.parse\<close> that throws is caught.
  The result spreads the parsed object and sets \<open>code\<close> and \<open>message\<close> to the values they
  already have: \<open>parsed_fields\<close> are the parsed object's properties.
\<close>

record 'n APIErrorResponseBody =
  body_code :: string
  body_message :: string
  parsed_fields :: "(string \<times> 'n jsval) list"

definition parseAPIErrorResponseBody ::
  "('e, 'n) platform \<Rightarrow> string \<Rightarrow> 'n APIErrorResponseBody option" where
  "parseAPIErrorResponseBody P body =
     (case JSON_parse P body of
        Inl parseError \<Rightarrow> None
      | Inr parsed \<Rightarrow>
          if \<not> isObject parsed
             \<or> typeof (get_property parsed ''message'') \<noteq> ''string''
             \<or> \<not> isAPIErrorCode (get_property parsed ''code'')
          then None
          else (case (parsed, get_property parsed ''code'', get_property parsed ''message'') of
                  (JObject ps, JString c, JString m) \<Rightarrow>
                    Some \<lparr>body_code = c, body_message = m, parsed_fields = ps\<rparr>
                | _ \<Rightarrow> None))"

text \<open>The response the transport resolves with, and what a promise does.\<close>

datatype ('e, 'a) settlement = Fulfils 'a | Rejects 'e

datatype ('e, 'a) promise = Settles "('e, 'a) settlement" | NeverSettles

record ('e, 'n) Response =
  ok :: bool
  res_status :: 'n
  res_headers :: "(string \<times> string) list"
  res_text :: "('e, string) promise"

definition buildRequestError ::
  "('e, 'n) platform \<Rightarrow> ('e, 'n) Response \<Rightarrow> string \<Rightarrow> ('e, 'n) thrown" where
  "buildRequestError P response bodyText =
     (case parseAPIErrorResponseBody P bodyText of
        Some apiErrorResponseBody \<Rightarrow>
          new_APIResponseError (body_code apiErrorResponseBody)
            (body_message apiErrorResponseBody) (res_headers response) (res_status response)
            bodyText
      | None \<Rightarrow>
          new_UnknownHTTPResponseError P (res_status response) None (res_headers response)
            bodyText)"

section \<open>The timeout race\<close>

text \<open>
  \<^verbatim>\<open>RequestTimeoutError.rejectAfterTimeout(promise, timeoutMS)\<close> returns a new promise, arms a
  timer and attaches handlers to \<open>promise\<close>. What happens next is a sequence of events: the
  timer fires, or \<open>promise\<close> settles. Time is kept as the order of these events only. The
  transport's call is described by when its promise settles relative to the timer of the
  race it runs in: before the timer fires, after it, or never.
\<close>

datatype ('e, 'a) transport_call =
    BeforeTimer "('e, 'a) settlement"
  | AfterTimer "('e, 'a) settlement"
  | Never

datatype ('e, 'a) event = TimerFires | PromiseSettles "('e, 'a) settlement"

fun events_of :: "('e, 'a) transport_call \<Rightarrow> ('e, 'a) event list" where
  "events_of (BeforeTimer s) = [PromiseSettles s]"
| "events_of (AfterTimer s) = [TimerFires, PromiseSettles s]"
| "events_of Never = [TimerFires]"

datatype 'n timer = Armed 'n | Fired | Cleared

record ('e, 'n, 'a) race =
  settled :: "(('e, 'n) thrown, 'a) settlement option"
  timeoutId :: "'n timer"

text \<open>\<^verbatim>\<open>resolve\<close> and \<^verbatim>\<open>reject\<close> of the new promise: only the first call has an effect.\<close>

definition settle ::
  "('e, 'n, 'a) race \<Rightarrow> (('e, 'n) thrown, 'a) settlement \<Rightarrow> ('e, 'n, 'a) race" where
  "settle r s = (case settled r of None \<Rightarrow> r\<lparr>settled := Some s\<rparr> | Some s' \<Rightarrow> r)"

text \<open>\<^verbatim>\<open>clearTimeout(timeoutId)\<close>: cancels a timer that is still armed.\<close>

definition clearTimeout :: "('e, 'n, 'a) race \<Rightarrow> ('e, 'n, 'a) race" where
  "clearTimeout r =
     (case timeoutId r of Armed d \<Rightarrow> r\<lparr>timeoutId := Cleared\<rparr> | Fired \<Rightarrow> r | Cleared \<Rightarrow> r)"

text \<open>
  One event. The timer's callback rejects with a new \<^verbatim>\<open>RequestTimeoutError\<close>; a timer that
  is not armed does not fire. When \<open>promise\<close> settles, the chain
  \<^verbatim>\<open>.then(resolve).catch(reject).then(() => clearTimeout(timeoutId))\<close> runs: \<^verbatim>\<open>resolve\<close> on a value,
  \<^verbatim>\<open>reject\<close> on a rejection, then \<^verbatim>\<open>clearTimeout\<close> in both cases.
\<close>

fun race_step :: "('e, 'n, 'a) race \<Rightarrow> ('e, 'a) event \<Rightarrow> ('e, 'n, 'a) race" where
  "race_step r TimerFires =
     (case timeoutId r of
        Armed d \<Rightarrow> settle (r\<lparr>timeoutId := Fired\<rparr>) (Rejects new_RequestTimeoutError)
      | Fired \<Rightarrow> r
      | Cleared \<Rightarrow> r)"
| "race_step r (PromiseSettles (Fulfils v)) = clearTimeout (settle r (Fulfils v))"
| "race_step r (PromiseSettles (Rejects e)) = clearTimeout (settle r (Rejects (Raised e)))"

text \<open>
  The race as \<^verbatim>\<open>rejectAfterTimeout\<close> leaves it when it returns: nothing has settled, the
  timer is armed for \<open>timeoutMS\<close>. Its result is the race after the events of \<open>promise\<close>.
\<close>

definition race_start :: "'n \<Rightarrow> ('e, 'n, 'a) race" where
  "race_start timeoutMS = \<lparr>settled = None, timeoutId = Armed timeoutMS\<rparr>"

definition rejectAfterTimeout ::
  "('e, 'a) transport_call \<Rightarrow> 'n \<Rightarrow> ('e, 'n, 'a) race" where
  "rejectAfterTimeout promise timeoutMS =
     foldl race_step (race_start timeoutMS) (events_of promise)"

section \<open>The client\<close>

datatype Method = get | post | patch | delete

text \<open>\<^verbatim>\<open>method.toUpperCase()\<close> on the four values of the type.\<close>

fun toUpperCase :: "Method \<Rightarrow> string" where
  "toUpperCase get = ''GET''"
| "toUpperCase post = ''POST''"
| "toUpperCase patch = ''PATCH''"
| "toUpperCase delete = ''DELETE''"

text \<open>
  \<^verbatim>\<open>QueryParams\<close>: a record whose values are a string, a number or an array of strings (the
  loop also tests for \<^verbatim>\<open>undefined\<close>), or a \<^verbatim>\<open>URLSearchParams\<close> instance, given by its entries.
\<close>

datatype 'n QueryValue =
    QUndefined
  | QString string
  | QNumber 'n
  | QArray "string list"

datatype 'n QueryParams =
    QRecord "(string \<times> 'n QueryValue) list"
  | QURLSearchParams "(string \<times> string) list"

text \<open>
  \<^verbatim>\<open>Object.entries(query)\<close>: the own enumerable string-keyed properties. A \<^verbatim>\<open>URLSearchParams\<close>
  instance has none: its entries are internal state.
\<close>

fun Object_entries :: "'n QueryParams \<Rightarrow> (string \<times> 'n QueryValue) list" where
  "Object_entries (QRecord kvs) = kvs"
| "Object_entries (QURLSearchParams ps) = []"

record 'n RequestParameters =
  path :: string
  http_method :: Method
  query :: "'n QueryParams option"
  body :: "(string \<times> 'n jsval) list option"
  req_auth :: "(string \<times> string) option"

record 'ag RequestInit =
  init_method :: string
  init_headers :: "(string \<times> string) list"
  init_body :: "string option"
  init_agent :: "'ag option"

type_synonym ('e, 'n, 'ag) SupportedFetch =
  "string \<Rightarrow> 'ag RequestInit \<Rightarrow> ('e, ('e, 'n) Response) transport_call"

record ('e, 'n, 'ag) Options =
  opt_auth :: "(string \<times> string) list option"
  opt_timeoutMs :: "'n option"
  opt_baseUrl :: "string option"
  opt_fetch :: "('e, 'n, 'ag) SupportedFetch option"
  opt_agent :: "'ag option"

record ('e, 'n, 'ag) Client =
  auth :: "(string \<times> string) list option"
  prefixUrl :: string
  timeoutMs :: 'n
  fetch :: "('e, 'n, 'ag) SupportedFetch"
  agent :: "'ag option"
  userAgent :: string

text \<open>
  The constructor. \<open>PACKAGE_VERSION\<close> (read from \<^verbatim>\<open>package.json\<close>) and \<open>nodeFetch\<close> (the
  default transport) are not in the sources and are parameters. \<^verbatim>\<open>options?.f ?? d\<close> is \<open>d\<close>
  when there are no options or the field is absent.
\<close>

definition new_Client ::
  "string \<Rightarrow> ('e, 'n, 'ag) SupportedFetch \<Rightarrow> ('e, 'n::numeral, 'ag) Options option
     \<Rightarrow> ('e, 'n, 'ag) Client" where
  "new_Client PACKAGE_VERSION nodeFetch options =
     \<lparr>auth = (case options of None \<Rightarrow> None | Some opts \<Rightarrow> opt_auth opts),
      prefixUrl = (case options of None \<Rightarrow> []
                   | Some opts \<Rightarrow> (case opt_baseUrl opts of None \<Rightarrow> [] | Some b \<Rightarrow> b)),
      timeoutMs = (case options of None \<Rightarrow> 60000
                   | Some opts \<Rightarrow> (case opt_timeoutMs opts of None \<Rightarrow> 60000 | Some t \<Rightarrow> t)),
      fetch = (case options of None \<Rightarrow> nodeFetch
               | Some opts \<Rightarrow> (case opt_fetch opts of None \<Rightarrow> nodeFetch | Some f \<Rightarrow> f)),
      agent = (case options of None \<Rightarrow> None | Some opts \<Rightarrow> opt_agent opts),
      userAgent = ''anteraja-client/'' @ PACKAGE_VERSION\<rparr>"

subsection \<open>Building the request\<close>

text \<open>
  \<^verbatim>\<open>!body || Object.entries(body).length === 0 ? undefined : JSON.stringify(body)\<close>;
  \<^verbatim>\<open>JSON.stringify\<close> may throw, and may return \<^verbatim>\<open>undefined\<close>, which is the \<open>None\<close> of no body.
\<close>

definition bodyAsJsonString ::
  "('e, 'n) platform \<Rightarrow> (string \<times> 'n jsval) list option \<Rightarrow> 'e + string option" where
  "bodyAsJsonString P b =
     (case b of
        None \<Rightarrow> Inr None
      | Some entries \<Rightarrow>
          if length entries = 0 then Inr None
          else JSON_stringify P entries)"

text \<open>
  The \<^verbatim>\<open>forEach\<close> over an array value: each element is decoded and appended under the key.
  A \<^verbatim>\<open>decodeURIComponent\<close> that throws ends the loop and the request.
\<close>

fun append_each :: "('e, 'n) platform \<Rightarrow> URL \<Rightarrow> string \<Rightarrow> string list \<Rightarrow> 'e + URL" where
  "append_each P url key [] = Inr url"
| "append_each P url key (val # vals) =
     (case decodeURIComponent P val of
        Inl e \<Rightarrow> Inl e
      | Inr decoded \<Rightarrow> append_each P (searchParams_append url key decoded) key vals)"

text \<open>The body of the \<^verbatim>\<open>for\<close> loop, for one entry; \<^verbatim>\<open>String(value)\<close> of a string is the string.\<close>

fun append_entry :: "('e, 'n) platform \<Rightarrow> URL \<Rightarrow> string \<Rightarrow> 'n QueryValue \<Rightarrow> 'e + URL" where
  "append_entry P url key QUndefined = Inr url"
| "append_entry P url key (QArray vals) = append_each P url key vals"
| "append_entry P url key (QString s) = Inr (searchParams_append url key s)"
| "append_entry P url key (QNumber n) = Inr (searchParams_append url key (number_toString P n))"

fun append_entries ::
  "('e, 'n) platform \<Rightarrow> URL \<Rightarrow> (string \<times> 'n QueryValue) list \<Rightarrow> 'e + URL" where
  "append_entries P url [] = Inr url"
| "append_entries P url ((key, val) # rest) =
     (case append_entry P url key val of
        Inl e \<Rightarrow> Inl e
      | Inr url' \<Rightarrow> append_entries P url' rest)"

text \<open>\<^verbatim>\<open>if (query) { for (const [key, value] of Object.entries(query)) ... }\<close>\<close>

definition append_query ::
  "('e, 'n) platform \<Rightarrow> URL \<Rightarrow> 'n QueryParams option \<Rightarrow> 'e + URL" where
  "append_query P url q =
     (case q of None \<Rightarrow> Inr url | Some qp \<Rightarrow> append_entries P url (Object_entries qp))"

text \<open>
  The headers: the auth material spread into a new object, then \<^verbatim>\<open>user-agent\<close>, then
  \<^verbatim>\<open>content-type\<close> when there is a body. Setting a key that is there replaces its value in
  place; a new key goes to the end.
\<close>

definition request_headers ::
  "('e, 'n, 'ag) Client \<Rightarrow> string option \<Rightarrow> (string \<times> string) list" where
  "request_headers c bodyStr =
     (let hs = AList.update ''user-agent'' (userAgent c)
                 (case auth c of None \<Rightarrow> [] | Some a \<Rightarrow> a)
      in case bodyStr of
           None \<Rightarrow> hs
         | Some s \<Rightarrow> AList.update ''content-type'' ''application/json'' hs)"

text \<open>
  Everything \<^verbatim>\<open>request\<close> does before the \<^verbatim>\<open>try\<close> block, in the order of the source (the body is
  serialized, the URL is parsed, the query is appended, the headers are built), with the
  arguments of the transport call as the result.
\<close>

definition build_request ::
  "('e, 'n) platform \<Rightarrow> ('e, 'n, 'ag) Client \<Rightarrow> 'n RequestParameters
     \<Rightarrow> 'e + string \<times> 'ag RequestInit" where
  "build_request P c params =
     (case bodyAsJsonString P (body params) of
        Inl e \<Rightarrow> Inl e
      | Inr bodyStr \<Rightarrow>
          (case new_URL P (prefixUrl c @ path params) of
             Inl e \<Rightarrow> Inl e
           | Inr url0 \<Rightarrow>
               (case append_query P url0 (query params) of
                  Inl e \<Rightarrow> Inl e
                | Inr url \<Rightarrow>
                    Inr (URL_toString P url,
                         \<lparr>init_method = toUpperCase (http_method params),
                          init_headers = request_headers c bodyStr,
                          init_body = bodyStr,
                          init_agent = agent c\<rparr>))))"

subsection \<open>The exchange\<close>

datatype ('e, 'n) outcome =
    Returns "'n jsval"
  | Throws "('e, 'n) thrown"
  | NeverReturns

text \<open>The \<^verbatim>\<open>catch\<close> clause: both of its branches throw the error again.\<close>

definition catch_clause :: "('e, 'n) thrown \<Rightarrow> ('e, 'n) outcome" where
  "catch_clause error = (if \<not> isClientError error then Throws error else Throws error)"

text \<open>The \<^verbatim>\<open>try\<close> block, given the arguments of the transport call.\<close>

definition try_block ::
  "('e, 'n) platform \<Rightarrow> ('e, 'n, 'ag) Client \<Rightarrow> string \<Rightarrow> 'ag RequestInit
     \<Rightarrow> ('e, 'n) outcome" where
  "try_block P c url init =
     (case settled (rejectAfterTimeout (fetch c url init) (timeoutMs c)) of
        None \<Rightarrow> NeverReturns
      | Some (Rejects error) \<Rightarrow> catch_clause error
      | Some (Fulfils response) \<Rightarrow>
          (case res_text response of
             NeverSettles \<Rightarrow> NeverReturns
           | Settles (Rejects e) \<Rightarrow> catch_clause (Raised e)
           | Settles (Fulfils responseText) \<Rightarrow>
               if \<not> ok response then catch_clause (buildRequestError P response responseText)
               else (case JSON_parse P responseText of
                       Inl e \<Rightarrow> catch_clause (Raised e)
                     | Inr responseJson \<Rightarrow> Returns responseJson)))"

definition request ::
  "('e, 'n) platform \<Rightarrow> ('e, 'n, 'ag) Client \<Rightarrow> 'n RequestParameters
     \<Rightarrow> ('e, 'n) outcome" where
  "request P c params =
     (case build_request P c params of
        Inl e \<Rightarrow> Throws (Raised e)
      | Inr (url, init) \<Rightarrow> try_block P c url init)"

section \<open>A sample platform and sample exchanges\<close>

text \<open>
  The theorems below hold for every platform. Their examples run the client on
  \<open>sample_platform\<close>, which gives the host language's answers on the inputs the examples
  use, with \<open>int\<close> for the numbers. On any other input it answers with an error that says
  so; no example reaches one.
\<close>

datatype js_error = SyntaxError string | TypeError string | URIError string | FetchError string

fun decimal :: "nat \<Rightarrow> string" where
  "decimal n =
     (if n < 10 then [''0123456789'' ! n]
      else decimal (n div 10) @ [''0123456789'' ! (n mod 10)])"

definition sample_number_toString :: "int \<Rightarrow> string" where
  "sample_number_toString i =
     (if i < 0 then CHR ''-'' # decimal (nat (- i)) else decimal (nat i))"

definition sample_JSON_parse :: "string \<Rightarrow> js_error + int jsval" where
  \<open>sample_JSON_parse s =
     (if s = ''{"code":"object_not_found","message":"not found"}''
      then Inr (JObject [(''code'', JString ''object_not_found''),
                         (''message'', JString ''not found'')])
      else if s = ''{"code":"toString","message":"x"}''
      then Inr (JObject [(''code'', JString ''toString''), (''message'', JString ''x'')])
      else if s = ''{"ok":true}'' then Inr (JObject [(''ok'', JBoolean True)])
      else if s = ''{}'' then Inr (JObject [])
      else if s = ''{"weight":2000}'' then Inr (JObject [(''weight'', JNumber 2000)])
      else if s = ''Bad Gateway'' then Inl (SyntaxError ''Unexpected token B in JSON'')
      else if s = ''<html>'' then Inl (SyntaxError ''Unexpected token < in JSON'')
      else Inl (SyntaxError ''outside the sample''))\<close>

definition sample_JSON_stringify ::
  "(string \<times> int jsval) list \<Rightarrow> js_error + string option" where
  \<open>sample_JSON_stringify entries =
     (if entries = [(''weight'', JNumber 2000)] then Inr (Some ''{"weight":2000}'')
      else if entries = [(''origin'', JString ''31.73.06''), (''destination'', JString ''31.73.06''),
                         (''weight'', JNumber 2000)]
      then Inr (Some ''{"origin":"31.73.06","destination":"31.73.06","weight":2000}'')
      else if entries = [(''a'', JUndefined)] then Inr (Some ''{}'')
      else if entries = [(''toJSON'', JFunction ''() => undefined'')] then Inr None
      else if entries = [(''id'', JBigInt 10)]
      then Inl (TypeError ''Do not know how to serialize a BigInt'')
      else Inl (TypeError ''outside the sample''))\<close>

definition sample_new_URL :: "string \<Rightarrow> js_error + URL" where
  "sample_new_URL s =
     (if s = ''https://api.example.com/serviceRates''
      then Inr \<lparr>location = ''https://api.example.com/serviceRates'', searchParams = [],
                hash = []\<rparr>
      else if s = ''https://api.example.com/orders''
      then Inr \<lparr>location = ''https://api.example.com/orders'', searchParams = [], hash = []\<rparr>
      else if s = ''https://api.example.com/orders?tag=a''
      then Inr \<lparr>location = ''https://api.example.com/orders'',
                searchParams = [(''tag'', ''a'')], hash = []\<rparr>
      else if s = ''your-base-url/serviceRates'' then Inl (TypeError ''Invalid URL'')
      else if s = ''/serviceRates'' then Inl (TypeError ''Invalid URL'')
      else Inl (TypeError ''outside the sample''))"

text \<open>
  The serializer of the sample writes the entries as \<^verbatim>\<open>key=value\<close>, joined by \<^verbatim>\<open>&\<close>, with a
  space as \<^verbatim>\<open>+\<close>: the form encoding of texts made of letters, digits and spaces.
\<close>

fun sample_encode :: "string \<Rightarrow> string" where
  "sample_encode [] = []"
| "sample_encode (c # cs) = (if c = CHR '' '' then CHR ''+'' else c) # sample_encode cs"

fun sample_query_string :: "(string \<times> string) list \<Rightarrow> string" where
  "sample_query_string [] = []"
| "sample_query_string [(k, v)] = sample_encode k @ ''='' @ sample_encode v"
| "sample_query_string ((k, v) # rest) =
     sample_encode k @ ''='' @ sample_encode v @ ''&'' @ sample_query_string rest"

definition sample_URL_toString :: "URL \<Rightarrow> string" where
  "sample_URL_toString url =
     location url
       @ (if searchParams url = [] then [] else ''?'' @ sample_query_string (searchParams url))
       @ hash url"

definition sample_decodeURIComponent :: "string \<Rightarrow> js_error + string" where
  "sample_decodeURIComponent s =
     (if CHR ''%'' \<notin> set s then Inr s
      else if s = ''a%20b'' then Inr ''a b''
      else if s = ''%'' then Inl (URIError ''URI malformed'')
      else Inl (URIError ''outside the sample''))"

definition sample_platform :: "(js_error, int) platform" where
  "sample_platform =
     \<lparr>JSON_parse = sample_JSON_parse,
      JSON_stringify = sample_JSON_stringify,
      new_URL = sample_new_URL,
      URL_toString = sample_URL_toString,
      decodeURIComponent = sample_decodeURIComponent,
      number_toString = sample_number_toString\<rparr>"

text \<open>A transport that resolves with \<open>r\<close> before the timer fires, one that fails, one that hangs.\<close>

definition answers :: "(js_error, int) Response \<Rightarrow> (js_error, int, unit) SupportedFetch" where
  "answers r = (\<lambda>url init. BeforeTimer (Fulfils r))"

definition fails :: "js_error \<Rightarrow> (js_error, int, unit) SupportedFetch" where
  "fails e = (\<lambda>url init. BeforeTimer (Rejects e))"

definition hangs :: "(js_error, int, unit) SupportedFetch" where
  "hangs = (\<lambda>url init. Never)"

definition sample_Client ::
  "(js_error, int, unit) SupportedFetch \<Rightarrow> (js_error, int, unit) Client" where
  "sample_Client f =
     new_Client ''1.0.0'' hangs
       (Some \<lparr>opt_auth = Some [(''access-key-id'', ''key''), (''secret-access-key'', ''secret'')],
              opt_timeoutMs = None,
              opt_baseUrl = Some ''https://api.example.com'',
              opt_fetch = Some f,
              opt_agent = None\<rparr>)"

text \<open>A client whose auth material holds a \<^verbatim>\<open>content-type\<close> of its own.\<close>

definition content_type_auth_Client :: "(js_error, int, unit) Client" where
  "content_type_auth_Client =
     new_Client ''1.0.0'' hangs
       (Some \<lparr>opt_auth = Some [(''access-key-id'', ''key''), (''content-type'', ''text/plain'')],
              opt_timeoutMs = None,
              opt_baseUrl = Some ''https://api.example.com'',
              opt_fetch = None,
              opt_agent = None\<rparr>)"

definition serviceRates :: "int RequestParameters" where
  "serviceRates =
     \<lparr>path = ''/serviceRates'', http_method = post, query = None,
      body = Some [(''weight'', JNumber 2000)], req_auth = None\<rparr>"

text \<open>The client and the call of \<^verbatim>\<open>test/Client.test.ts\<close>, with \<open>hangs\<close> as the default transport.\<close>

definition test_Client :: "(js_error, int, unit) Client" where
  "test_Client =
     new_Client ''1.0.0'' hangs
       (Some \<lparr>opt_auth = Some [(''access-key-id'', ''your-access-key-id''),
                               (''secret-access-key'', ''your-secret-access-key'')],
              opt_timeoutMs = None,
              opt_baseUrl = Some ''your-base-url'',
              opt_fetch = None,
              opt_agent = None\<rparr>)"

definition test_serviceRates :: "int RequestParameters" where
  "test_serviceRates =
     \<lparr>path = ''/serviceRates'', http_method = post, query = None,
      body = Some [(''origin'', JString ''31.73.06''), (''destination'', JString ''31.73.06''),
                   (''weight'', JNumber 2000)],
      req_auth = None\<rparr>"

text \<open>Calls with a query, and calls whose body the serializer drops a field of or rejects.\<close>

definition orders :: "int QueryParams option \<Rightarrow> int RequestParameters" where
  "orders q = \<lparr>path = ''/orders'', http_method = get, query = q, body = None, req_auth = None\<rparr>"

definition orders_tagged :: "int RequestParameters" where
  "orders_tagged =
     \<lparr>path = ''/orders?tag=a'', http_method = get,
      query = Some (QRecord [(''tag'', QArray [''b''])]), body = None, req_auth = None\<rparr>"

definition undefined_field :: "int RequestParameters" where
  "undefined_field =
     \<lparr>path = ''/orders'', http_method = post, query = None,
      body = Some [(''a'', JUndefined)], req_auth = None\<rparr>"

definition toJSON_field :: "int RequestParameters" where
  "toJSON_field =
     \<lparr>path = ''/orders'', http_method = post, query = None,
      body = Some [(''toJSON'', JFunction ''() => undefined'')], req_auth = None\<rparr>"

definition bigint_field :: "int RequestParameters" where
  "bigint_field =
     \<lparr>path = ''/orders'', http_method = post, query = None,
      body = Some [(''id'', JBigInt 10)], req_auth = None\<rparr>"

definition not_found_response :: "(js_error, int) Response" where
  \<open>not_found_response =
     \<lparr>ok = False, res_status = 404,
      res_headers = [(''content-type'', ''application/json'')],
      res_text = Settles (Fulfils ''{"code":"object_not_found","message":"not found"}'')\<rparr>\<close>

definition bad_gateway_response :: "(js_error, int) Response" where
  "bad_gateway_response =
     \<lparr>ok = False, res_status = 502, res_headers = [(''server'', ''nginx'')],
      res_text = Settles (Fulfils ''Bad Gateway'')\<rparr>"

definition inherited_code_response :: "(js_error, int) Response" where
  \<open>inherited_code_response =
     \<lparr>ok = False, res_status = 400,
      res_headers = [(''content-type'', ''application/json'')],
      res_text = Settles (Fulfils ''{"code":"toString","message":"x"}'')\<rparr>\<close>

definition ok_response :: "(js_error, int) Response" where
  \<open>ok_response =
     \<lparr>ok = True, res_status = 200,
      res_headers = [(''content-type'', ''application/json'')],
      res_text = Settles (Fulfils ''{"ok":true}'')\<rparr>\<close>

section \<open>Facts about the parts\<close>

declare decimal.simps [simp del]

lemma APIErrorCode_value_in_apiErrorCodes: "APIErrorCode_value ec \<in> set apiErrorCodes"
  by (cases ec) (simp_all add: apiErrorCodes_def)

lemma parseAPIErrorResponseBody_match:
  assumes "JSON_parse P bodyText = Inr (JObject props)"
    and "map_of props ''message'' = Some (JString m)"
    and "map_of props ''code'' = Some (JString c)"
    and "key_in c apiErrorCodes"
  shows "parseAPIErrorResponseBody P bodyText
           = Some \<lparr>body_code = c, body_message = m, parsed_fields = props\<rparr>"
  using assms by (simp add: parseAPIErrorResponseBody_def)

lemma rejectAfterTimeout_BeforeTimer_Fulfils:
  "rejectAfterTimeout (BeforeTimer (Fulfils v)) d = \<lparr>settled = Some (Fulfils v), timeoutId = Cleared\<rparr>"
  by (simp add: rejectAfterTimeout_def race_start_def settle_def clearTimeout_def)

lemma rejectAfterTimeout_BeforeTimer_Rejects:
  "rejectAfterTimeout (BeforeTimer (Rejects e)) d
     = \<lparr>settled = Some (Rejects (Raised e)), timeoutId = Cleared\<rparr>"
  by (simp add: rejectAfterTimeout_def race_start_def settle_def clearTimeout_def)

lemma rejectAfterTimeout_AfterTimer:
  "rejectAfterTimeout (AfterTimer s) d
     = \<lparr>settled = Some (Rejects new_RequestTimeoutError), timeoutId = Fired\<rparr>"
  by (cases s) (simp_all add: rejectAfterTimeout_def race_start_def settle_def clearTimeout_def)

lemma rejectAfterTimeout_Never:
  "rejectAfterTimeout Never d
     = \<lparr>settled = Some (Rejects new_RequestTimeoutError), timeoutId = Fired\<rparr>"
  by (simp add: rejectAfterTimeout_def race_start_def settle_def)



lemma catch_clause_rethrows: "catch_clause error = Throws error"
  by (simp add: catch_clause_def)

text \<open>The \<^verbatim>\<open>try\<close> block once the transport has resolved in time and the text has been read.\<close>

lemma try_block_response:
  assumes "fetch c url init = BeforeTimer (Fulfils response)"
    and "res_text response = Settles (Fulfils responseText)"
  shows "try_block P c url init =
           (if \<not> ok response then Throws (buildRequestError P response responseText)
            else (case JSON_parse P responseText of
                    Inl e \<Rightarrow> Throws (Raised e)
                  | Inr responseJson \<Rightarrow> Returns responseJson))"
  using assms
  by (simp add: try_block_def rejectAfterTimeout_BeforeTimer_Fulfils catch_clause_rethrows
      split: sum.split)

section \<open>Response classification and the timeout race\<close>

text \<open>
  C1. A response that is not ok, whose body text parses to an object with a string
  \<open>message\<close> and a \<open>code\<close> that is one of the eleven API error codes, makes \<open>request\<close> throw
  an \<open>APIResponseError\<close> with that code and message and with the status, the headers and
  the body text of the response.
\<close>

theorem request_throws_APIResponseError:
  assumes "build_request P c params = Inr (url, init)"
    and "fetch c url init = BeforeTimer (Fulfils response)"
    and "res_text response = Settles (Fulfils bodyText)"
    and "\<not> ok response"
    and "JSON_parse P bodyText = Inr (JObject props)"
    and "map_of props ''message'' = Some (JString m)"
    and "map_of props ''code'' = Some (JString (APIErrorCode_value ec))"
  shows "request P c params =
           Throws (APIResponseError
             \<lparr>code = APIErrorCode_value ec,
              status = res_status response,
              message = m,
              headers = res_headers response,
              rawBodyText = bodyText\<rparr>)"
proof -
  have "key_in (APIErrorCode_value ec) apiErrorCodes"
    by (simp add: key_in_def APIErrorCode_value_in_apiErrorCodes)
  with assms(5-7) have "parseAPIErrorResponseBody P bodyText
      = Some \<lparr>body_code = APIErrorCode_value ec, body_message = m, parsed_fields = props\<rparr>"
    by (rule parseAPIErrorResponseBody_match)
  then have "buildRequestError P response bodyText =
      APIResponseError \<lparr>code = APIErrorCode_value ec, status = res_status response,
        message = m, headers = res_headers response, rawBodyText = bodyText\<rparr>"
    by (simp add: buildRequestError_def new_APIResponseError_def)
  with assms(1-4) show ?thesis
    by (simp add: request_def try_block_response)
qed

lemma sample_serviceRates_request:
  "build_request sample_platform (sample_Client f) serviceRates =
     Inr (''https://api.example.com/serviceRates'',
          \<lparr>init_method = ''POST'',
           init_headers = [(''access-key-id'', ''key''), (''secret-access-key'', ''secret''),
                           (''user-agent'', ''anteraja-client/1.0.0''),
                           (''content-type'', ''application/json'')],
           init_body = Some ''{\"weight\":2000}'',
           init_agent = None\<rparr>)"
  by (simp add: build_request_def sample_platform_def sample_Client_def new_Client_def
      serviceRates_def bodyAsJsonString_def sample_JSON_stringify_def sample_new_URL_def
      append_query_def sample_URL_toString_def request_headers_def)

theorem request_throws_APIResponseError_witness:
  \<open>\<not> ok not_found_response \<and>
   request sample_platform (sample_Client (answers not_found_response)) serviceRates =
     Throws (APIResponseError
       \<lparr>code = ''object_not_found'',
        status = 404,
        message = ''not found'',
        headers = [(''content-type'', ''application/json'')],
        rawBodyText = ''{"code":"object_not_found","message":"not found"}''\<rparr>)\<close>
  using request_throws_APIResponseError
    [of sample_platform "sample_Client (answers not_found_response)" serviceRates
        _ _ not_found_response _ _ "''not found''" ObjectNotFound,
     OF sample_serviceRates_request]
  by (simp add: sample_Client_def new_Client_def answers_def not_found_response_def
      sample_platform_def sample_JSON_parse_def)

text \<open>
  When the parser finds no match, a response that is not ok makes \<open>request\<close> throw an
  \<open>UnknownHTTPResponseError\<close> with the code \<^verbatim>\<open>response_error\<close>, the status, the headers and the
  body text of the response, and the message \<^verbatim>\<open>Request failed with status: \<close> followed by the
  status as text.
\<close>

lemma request_throws_UnknownHTTPResponseError:
  assumes "build_request P c params = Inr (url, init)"
    and "fetch c url init = BeforeTimer (Fulfils response)"
    and "res_text response = Settles (Fulfils bodyText)"
    and "\<not> ok response"
    and "parseAPIErrorResponseBody P bodyText = None"
  shows "request P c params =
           Throws (UnknownHTTPResponseError
             \<lparr>code = ''response_error'',
              status = res_status response,
              message = ''Request failed with status: '' @ number_toString P (res_status response),
              headers = res_headers response,
              rawBodyText = bodyText\<rparr>)"
proof -
  from assms(5) have "buildRequestError P response bodyText =
      UnknownHTTPResponseError \<lparr>code = ''response_error'', status = res_status response,
        message = ''Request failed with status: '' @ number_toString P (res_status response),
        headers = res_headers response, rawBodyText = bodyText\<rparr>"
    by (simp add: buildRequestError_def new_UnknownHTTPResponseError_def)
  with assms(1-4) show ?thesis
    by (simp add: request_def try_block_response)
qed

lemma request_throws_UnknownHTTPResponseError_example:
  "request sample_platform (sample_Client (answers bad_gateway_response)) serviceRates =
     Throws (UnknownHTTPResponseError
       \<lparr>code = ''response_error'',
        status = 502,
        message = ''Request failed with status: 502'',
        headers = [(''server'', ''nginx'')],
        rawBodyText = ''Bad Gateway''\<rparr>)"
proof -
  have none: "parseAPIErrorResponseBody sample_platform ''Bad Gateway'' = None"
    by (simp add: parseAPIErrorResponseBody_def sample_platform_def sample_JSON_parse_def)
  have digits: "sample_number_toString 502 = ''502''"
    by (simp add: sample_number_toString_def decimal.simps)
  show ?thesis
    using request_throws_UnknownHTTPResponseError
      [of sample_platform "sample_Client (answers bad_gateway_response)" serviceRates
          _ _ bad_gateway_response "''Bad Gateway''",
       OF sample_serviceRates_request _ _ _ none] digits
    by (simp add: sample_Client_def new_Client_def answers_def bad_gateway_response_def
        sample_platform_def)
qed

lemma Object_prototype_keys_not_apiErrorCodes:
  "k \<in> set Object_prototype_keys \<Longrightarrow> k \<notin> set apiErrorCodes"
  by (auto simp add: Object_prototype_keys_def apiErrorCodes_def)

text \<open>
  C3. A response that is not ok and whose body text has no structured-error match is to
  make \<open>request\<close> throw an \<open>UnknownHTTPResponseError\<close>. A body whose \<open>code\<close> is a name an
  object literal inherits has no such match: the code is none of the eleven API error
  codes. When its \<open>message\<close> is a string, \<open>request\<close> throws an \<open>APIResponseError\<close> with that
  code, and no \<open>UnknownHTTPResponseError\<close>.
\<close>

theorem request_throws_APIResponseError_on_inherited_key:
  assumes "build_request P c params = Inr (url, init)"
    and "fetch c url init = BeforeTimer (Fulfils response)"
    and "res_text response = Settles (Fulfils bodyText)"
    and "\<not> ok response"
    and "JSON_parse P bodyText = Inr (JObject props)"
    and "map_of props ''message'' = Some (JString m)"
    and "map_of props ''code'' = Some (JString k)"
    and "k \<in> set Object_prototype_keys"
  shows "request P c params =
           Throws (APIResponseError
             \<lparr>code = k,
              status = res_status response,
              message = m,
              headers = res_headers response,
              rawBodyText = bodyText\<rparr>)
         \<and> k \<notin> set apiErrorCodes
         \<and> (\<forall>h. request P c params \<noteq> Throws (UnknownHTTPResponseError h))"
proof -
  from assms(8) have "key_in k apiErrorCodes"
    by (simp add: key_in_def)
  with assms(5-7) have "parseAPIErrorResponseBody P bodyText
      = Some \<lparr>body_code = k, body_message = m, parsed_fields = props\<rparr>"
    by (rule parseAPIErrorResponseBody_match)
  then have "buildRequestError P response bodyText =
      APIResponseError \<lparr>code = k, status = res_status response,
        message = m, headers = res_headers response, rawBodyText = bodyText\<rparr>"
    by (simp add: buildRequestError_def new_APIResponseError_def)
  with assms(1-4) have thrown: "request P c params =
      Throws (APIResponseError \<lparr>code = k, status = res_status response,
        message = m, headers = res_headers response, rawBodyText = bodyText\<rparr>)"
    by (simp add: request_def try_block_response)
  moreover from assms(8) have "k \<notin> set apiErrorCodes"
    by (rule Object_prototype_keys_not_apiErrorCodes)
  moreover from thrown have "\<forall>h. request P c params \<noteq> Throws (UnknownHTTPResponseError h)"
    by simp
  ultimately show ?thesis by blast
qed

theorem request_throws_APIResponseError_on_inherited_key_witness:
  \<open>\<not> ok inherited_code_response
   \<and> request sample_platform (sample_Client (answers inherited_code_response)) serviceRates =
       Throws (APIResponseError
         \<lparr>code = ''toString'',
          status = 400,
          message = ''x'',
          headers = [(''content-type'', ''application/json'')],
          rawBodyText = ''{"code":"toString","message":"x"}''\<rparr>)
   \<and> ''toString'' \<notin> set apiErrorCodes\<close>
  using request_throws_APIResponseError_on_inherited_key
    [of sample_platform "sample_Client (answers inherited_code_response)" serviceRates
        _ _ inherited_code_response _
        "[(''code'', JString ''toString''), (''message'', JString ''x'')]" "''x''" "''toString''",
     OF sample_serviceRates_request]
  by (simp add: sample_Client_def new_Client_def answers_def inherited_code_response_def
      sample_platform_def sample_JSON_parse_def Object_prototype_keys_def)

text \<open>
  C4. The structured-error parser is meant to match only a \<open>code\<close> among the eleven API
  error codes. It tests the code with the \<^verbatim>\<open>in\<close> operator, which also holds for the names
  an object literal inherits: a body whose \<open>code\<close> is such a name (and whose \<open>message\<close> is a
  string) is matched, with a code that is none of the eleven.
\<close>

theorem parseAPIErrorResponseBody_inherited_key:
  assumes "JSON_parse P bodyText = Inr (JObject props)"
    and "map_of props ''message'' = Some (JString m)"
    and "map_of props ''code'' = Some (JString k)"
    and "k \<in> set Object_prototype_keys"
  shows "parseAPIErrorResponseBody P bodyText
           = Some \<lparr>body_code = k, body_message = m, parsed_fields = props\<rparr>
         \<and> k \<notin> set apiErrorCodes"
proof
  from assms(4) have "key_in k apiErrorCodes"
    by (simp add: key_in_def)
  with assms(1-3) show "parseAPIErrorResponseBody P bodyText
      = Some \<lparr>body_code = k, body_message = m, parsed_fields = props\<rparr>"
    by (rule parseAPIErrorResponseBody_match)
  from assms(4) show "k \<notin> set apiErrorCodes"
    by (auto simp add: Object_prototype_keys_def apiErrorCodes_def)
qed

theorem parseAPIErrorResponseBody_inherited_key_witness:
  \<open>parseAPIErrorResponseBody sample_platform ''{"code":"toString","message":"x"}''
     = Some \<lparr>body_code = ''toString'', body_message = ''x'',
             parsed_fields = [(''code'', JString ''toString''), (''message'', JString ''x'')]\<rparr>
   \<and> ''toString'' \<notin> set apiErrorCodes\<close>
  using parseAPIErrorResponseBody_inherited_key
    [of sample_platform \<open>''{"code":"toString","message":"x"}''\<close>
        "[(''code'', JString ''toString''), (''message'', JString ''x'')]" "''x''" "''toString''"]
  by (simp add: sample_platform_def sample_JSON_parse_def Object_prototype_keys_def)



section \<open>The request builder\<close>

subsection \<open>The query loop\<close>

lemma append_each_Inl:
  "append_each P url key vals = Inl e \<Longrightarrow> \<exists>val \<in> set vals. decodeURIComponent P val = Inl e"
  by (induction vals arbitrary: url) (auto split: sum.splits)

lemma append_each_Inr:
  "append_each P url key vals = Inr url' \<Longrightarrow>
     \<exists>ds. map (decodeURIComponent P) vals = map Inr ds
        \<and> url' = url\<lparr>searchParams := searchParams url @ map (Pair key) ds\<rparr>"
proof (induction vals arbitrary: url)
  case Nil
  then show ?case by simp
next
  case (Cons val vals)
  from Cons.prems obtain d where d: "decodeURIComponent P val = Inr d"
    and rest: "append_each P (searchParams_append url key d) key vals = Inr url'"
    by (auto split: sum.splits)
  from Cons.IH [OF rest] obtain ds where ds: "map (decodeURIComponent P) vals = map Inr ds"
    and url': "url' = (searchParams_append url key d)
        \<lparr>searchParams := searchParams (searchParams_append url key d) @ map (Pair key) ds\<rparr>"
    by blast
  have "map (decodeURIComponent P) (val # vals) = map Inr (d # ds)"
    using d ds by simp
  moreover have "url' = url\<lparr>searchParams := searchParams url @ map (Pair key) (d # ds)\<rparr>"
    using url' by (simp add: searchParams_append_def)
  ultimately show ?case by blast
qed

lemma append_entry_Inl:
  "append_entry P url key v = Inl e \<Longrightarrow>
     \<exists>vals. v = QArray vals \<and> (\<exists>val \<in> set vals. decodeURIComponent P val = Inl e)"
  by (cases v) (auto dest: append_each_Inl)

lemma append_entry_Inr:
  "append_entry P url key v = Inr url' \<Longrightarrow>
     \<exists>new. url' = url\<lparr>searchParams := searchParams url @ map (Pair key) new\<rparr>
        \<and> (v = QUndefined \<longrightarrow> new = [])
        \<and> (\<forall>vals. v = QArray vals \<longrightarrow> map (decodeURIComponent P) vals = map Inr new)"
proof (cases v)
  case QUndefined
  assume "append_entry P url key v = Inr url'"
  with QUndefined have "url' = url\<lparr>searchParams := searchParams url @ map (Pair key) []\<rparr>"
    by simp
  with QUndefined show ?thesis by blast
next
  case (QString s)
  assume "append_entry P url key v = Inr url'"
  with QString have "url' = url\<lparr>searchParams := searchParams url @ map (Pair key) [s]\<rparr>"
    by (auto simp add: searchParams_append_def)
  with QString show ?thesis by blast
next
  case (QNumber n)
  assume "append_entry P url key v = Inr url'"
  with QNumber have
    "url' = url\<lparr>searchParams := searchParams url @ map (Pair key) [number_toString P n]\<rparr>"
    by (auto simp add: searchParams_append_def)
  with QNumber show ?thesis by blast
next
  case (QArray vals)
  assume "append_entry P url key v = Inr url'"
  with QArray have "append_each P url key vals = Inr url'" by simp
  from append_each_Inr [OF this] QArray show ?thesis by auto
qed

lemma append_entries_Inl:
  "append_entries P url kvs = Inl e \<Longrightarrow>
     \<exists>key vals. (key, QArray vals) \<in> set kvs
        \<and> (\<exists>val \<in> set vals. decodeURIComponent P val = Inl e)"
proof (induction kvs arbitrary: url)
  case Nil
  then show ?case by simp
next
  case (Cons kv kvs)
  obtain key v where kv: "kv = (key, v)" by (cases kv)
  show ?case
  proof (cases "append_entry P url key v")
    case (Inl e')
    with Cons.prems kv have "e' = e" by simp
    with Inl append_entry_Inl [of P url key v e] kv show ?thesis by auto
  next
    case (Inr url1)
    with Cons.prems kv have "append_entries P url1 kvs = Inl e" by simp
    from Cons.IH [OF this] show ?thesis by auto
  qed
qed

lemma append_entries_Inr:
  assumes "append_entries P url kvs = Inr url'"
    and "distinct (map fst kvs)"
  shows "location url' = location url \<and> hash url' = hash url
       \<and> (\<forall>key. key \<notin> fst ` set kvs \<longrightarrow>
             [kv \<leftarrow> searchParams url'. fst kv = key] = [kv \<leftarrow> searchParams url. fst kv = key])
       \<and> (\<forall>key v. (key, v) \<in> set kvs \<longrightarrow>
             (\<exists>new. [kv \<leftarrow> searchParams url'. fst kv = key]
                      = [kv \<leftarrow> searchParams url. fst kv = key] @ map (Pair key) new
                \<and> (v = QUndefined \<longrightarrow> new = [])
                \<and> (\<forall>vals. v = QArray vals \<longrightarrow> map (decodeURIComponent P) vals = map Inr new)))"
  using assms
proof (induction kvs arbitrary: url)
  case Nil
  then show ?case by simp
next
  case (Cons kv kvs)
  obtain k0 v0 where kv: "kv = (k0, v0)" by (cases kv)
  from Cons.prems kv obtain url1 where first: "append_entry P url k0 v0 = Inr url1"
    and rest: "append_entries P url1 kvs = Inr url'"
    by (auto split: sum.splits)
  from Cons.prems kv have fresh: "k0 \<notin> fst ` set kvs" and dist: "distinct (map fst kvs)"
    by auto
  from append_entry_Inr [OF first] obtain new0
    where url1: "url1 = url\<lparr>searchParams := searchParams url @ map (Pair k0) new0\<rparr>"
      and undef0: "v0 = QUndefined \<longrightarrow> new0 = []"
      and arr0: "\<forall>vals. v0 = QArray vals \<longrightarrow> map (decodeURIComponent P) vals = map Inr new0"
    by blast
  note IH = Cons.IH [OF rest dist]
  have own: "[kv \<leftarrow> searchParams url1. fst kv = k0]
      = [kv \<leftarrow> searchParams url. fst kv = k0] @ map (Pair k0) new0"
    using url1 by (simp add: filter_map comp_def)
  have other: "[kv \<leftarrow> searchParams url1. fst kv = key] = [kv \<leftarrow> searchParams url. fst kv = key]"
    if "key \<noteq> k0" for key
    using url1 that by (simp add: filter_map comp_def)
  show ?case
  proof (intro conjI allI impI)
    show "location url' = location url" using IH url1 by simp
    show "hash url' = hash url" using IH url1 by simp
  next
    fix key assume "key \<notin> fst ` set (kv # kvs)"
    then have "key \<noteq> k0" and "key \<notin> fst ` set kvs" using kv by auto
    with IH other show
      "[kv \<leftarrow> searchParams url'. fst kv = key] = [kv \<leftarrow> searchParams url. fst kv = key]"
      by simp
  next
    fix key v assume mem: "(key, v) \<in> set (kv # kvs)"
    show "\<exists>new. [kv \<leftarrow> searchParams url'. fst kv = key]
                  = [kv \<leftarrow> searchParams url. fst kv = key] @ map (Pair key) new
            \<and> (v = QUndefined \<longrightarrow> new = [])
            \<and> (\<forall>vals. v = QArray vals \<longrightarrow> map (decodeURIComponent P) vals = map Inr new)"
    proof (cases "(key, v) = (k0, v0)")
      case True
      with IH fresh have
        "[kv \<leftarrow> searchParams url'. fst kv = key] = [kv \<leftarrow> searchParams url1. fst kv = key]"
        by simp
      with own True undef0 arr0 show ?thesis by auto
    next
      case False
      with mem kv have later: "(key, v) \<in> set kvs" by auto
      with fresh have "key \<noteq> k0" by force
      from IH later obtain new
        where "[kv \<leftarrow> searchParams url'. fst kv = key]
                 = [kv \<leftarrow> searchParams url1. fst kv = key] @ map (Pair key) new"
          and "v = QUndefined \<longrightarrow> new = []"
          and "\<forall>vals. v = QArray vals \<longrightarrow> map (decodeURIComponent P) vals = map Inr new"
        by blast
      with other [OF \<open>key \<noteq> k0\<close>] show ?thesis by auto
    qed
  qed
qed

subsection \<open>Failures and results of the builder\<close>

lemma bodyAsJsonString_Inl:
  "bodyAsJsonString P b = Inl e \<longleftrightarrow>
     (\<exists>entries. b = Some entries \<and> entries \<noteq> [] \<and> JSON_stringify P entries = Inl e)"
  by (auto simp add: bodyAsJsonString_def split: option.splits sum.splits)

lemma build_request_Inl:
  "build_request P c params = Inl e \<longleftrightarrow>
     bodyAsJsonString P (body params) = Inl e
     \<or> (\<exists>bodyStr. bodyAsJsonString P (body params) = Inr bodyStr)
         \<and> (new_URL P (prefixUrl c @ path params) = Inl e
            \<or> (\<exists>url0. new_URL P (prefixUrl c @ path params) = Inr url0
                  \<and> append_query P url0 (query params) = Inl e))"
  by (auto simp add: build_request_def split: sum.splits)

lemma build_request_Inr:
  "build_request P c params = Inr (u, init) \<longleftrightarrow>
     (\<exists>bodyStr url0 url.
        bodyAsJsonString P (body params) = Inr bodyStr
        \<and> new_URL P (prefixUrl c @ path params) = Inr url0
        \<and> append_query P url0 (query params) = Inr url
        \<and> u = URL_toString P url
        \<and> init = \<lparr>init_method = toUpperCase (http_method params),
                   init_headers = request_headers c bodyStr,
                   init_body = bodyStr,
                   init_agent = agent c\<rparr>)"
  by (auto simp add: build_request_def split: sum.splits)

lemma append_query_Inl:
  "append_query P url0 q = Inl e \<Longrightarrow>
     \<exists>kvs key vals. q = Some (QRecord kvs) \<and> (key, QArray vals) \<in> set kvs
        \<and> (\<exists>val \<in> set vals. decodeURIComponent P val = Inl e)"
proof -
  assume a: "append_query P url0 q = Inl e"
  then obtain qp where q: "q = Some qp" and e: "append_entries P url0 (Object_entries qp) = Inl e"
    by (auto simp add: append_query_def split: option.splits)
  from e obtain kvs where qp: "qp = QRecord kvs" by (cases qp) auto
  with e have "append_entries P url0 kvs = Inl e" by simp
  from append_entries_Inl [OF this] q qp show ?thesis by blast
qed

text \<open>
  C6. Building the request is a function of the descriptor and the configuration. It fails
  when the serialization of the body fails, and also when the \<open>URL\<close> constructor rejects
  the prefix and path, or when \<^verbatim>\<open>decodeURIComponent\<close> rejects an element of an array value
  of the query; each time with the error of the step that failed, unchanged. A body that
  is absent or empty is not serialized.
\<close>

theorem build_request_fails_only:
  "(build_request P c params = Inl e \<longrightarrow>
      (\<exists>entries. body params = Some entries \<and> entries \<noteq> [] \<and> JSON_stringify P entries = Inl e)
      \<or> new_URL P (prefixUrl c @ path params) = Inl e
      \<or> (\<exists>kvs key vals. query params = Some (QRecord kvs) \<and> (key, QArray vals) \<in> set kvs
            \<and> (\<exists>val \<in> set vals. decodeURIComponent P val = Inl e)))
   \<and> (\<forall>entries. body params = Some entries \<and> entries \<noteq> [] \<and> JSON_stringify P entries = Inl e
         \<longrightarrow> build_request P c params = Inl e)
   \<and> ((\<exists>bodyStr. bodyAsJsonString P (body params) = Inr bodyStr)
         \<and> new_URL P (prefixUrl c @ path params) = Inl e
         \<longrightarrow> build_request P c params = Inl e)"
proof (intro conjI allI impI)
  assume failed: "build_request P c params = Inl e"
  then consider
      (body) "bodyAsJsonString P (body params) = Inl e"
    | (url) "new_URL P (prefixUrl c @ path params) = Inl e"
    | (query) url0 where "append_query P url0 (query params) = Inl e"
    unfolding build_request_Inl by blast
  then show "(\<exists>entries. body params = Some entries \<and> entries \<noteq> []
        \<and> JSON_stringify P entries = Inl e)
      \<or> new_URL P (prefixUrl c @ path params) = Inl e
      \<or> (\<exists>kvs key vals. query params = Some (QRecord kvs) \<and> (key, QArray vals) \<in> set kvs
            \<and> (\<exists>val \<in> set vals. decodeURIComponent P val = Inl e))"
  proof cases
    case body
    then show ?thesis by (simp add: bodyAsJsonString_Inl)
  next
    case url
    then show ?thesis by simp
  next
    case query
    from append_query_Inl [OF this] show ?thesis by blast
  qed
next
  fix entries
  assume "body params = Some entries \<and> entries \<noteq> [] \<and> JSON_stringify P entries = Inl e"
  then have "bodyAsJsonString P (body params) = Inl e"
    unfolding bodyAsJsonString_Inl by blast
  then show "build_request P c params = Inl e"
    by (simp add: build_request_Inl)
next
  assume "(\<exists>bodyStr. bodyAsJsonString P (body params) = Inr bodyStr)
      \<and> new_URL P (prefixUrl c @ path params) = Inl e"
  then show "build_request P c params = Inl e"
    by (simp add: build_request_Inl)
qed

theorem build_request_fails_only_witness:
  "build_request sample_platform (sample_Client hangs) bigint_field
     = Inl (TypeError ''Do not know how to serialize a BigInt'')
   \<and> build_request sample_platform test_Client (test_serviceRates\<lparr>body := None\<rparr>)
     = Inl (TypeError ''Invalid URL'')
   \<and> decodeURIComponent sample_platform ''%'' = Inl (URIError ''URI malformed'')"
proof -
  let ?q = "orders (Some (QRecord [(''tag'', QArray [''%''])]))"
  have q: "build_request sample_platform (sample_Client hangs) ?q = Inl (URIError ''URI malformed'')"
    by (simp add: build_request_def sample_platform_def sample_Client_def new_Client_def
        orders_def bodyAsJsonString_def sample_new_URL_def append_query_def
        sample_decodeURIComponent_def)
  have b: "body bigint_field = Some [(''id'', JBigInt 10)] \<and> [(''id'', JBigInt (10::int))] \<noteq> []
      \<and> JSON_stringify sample_platform [(''id'', JBigInt 10)]
          = Inl (TypeError ''Do not know how to serialize a BigInt'')"
    by (simp add: bigint_field_def sample_platform_def sample_JSON_stringify_def)
  have u: "(\<exists>bodyStr. bodyAsJsonString sample_platform (body (test_serviceRates\<lparr>body := None\<rparr>))
        = Inr bodyStr)
      \<and> new_URL sample_platform
          (prefixUrl test_Client @ path (test_serviceRates\<lparr>body := None\<rparr>))
          = Inl (TypeError ''Invalid URL'')"
    by (simp add: bodyAsJsonString_def test_serviceRates_def test_Client_def new_Client_def
        sample_platform_def sample_new_URL_def)
  from build_request_fails_only
      [of sample_platform "sample_Client hangs" ?q "URIError ''URI malformed''"] q
  have "decodeURIComponent sample_platform ''%'' = Inl (URIError ''URI malformed'')"
    by (simp add: orders_def sample_platform_def sample_new_URL_def sample_Client_def
        new_Client_def)
  moreover from build_request_fails_only
      [of sample_platform "sample_Client hangs" bigint_field
          "TypeError ''Do not know how to serialize a BigInt''"] b
  have "build_request sample_platform (sample_Client hangs) bigint_field
      = Inl (TypeError ''Do not know how to serialize a BigInt'')"
    by blast
  moreover from build_request_fails_only
      [of sample_platform test_Client "test_serviceRates\<lparr>body := None\<rparr>"
          "TypeError ''Invalid URL''"] u
  have "build_request sample_platform test_Client (test_serviceRates\<lparr>body := None\<rparr>)
      = Inl (TypeError ''Invalid URL'')"
    by blast
  ultimately show ?thesis by blast
qed

text \<open>
  C6 as stated fails where the query holds an array element that is not a valid percent
  encoding: there is no body to serialize, and building the request fails.
\<close>

theorem build_request_fails_without_body:
  "build_request sample_platform (sample_Client hangs)
       (orders (Some (QRecord [(''tag'', QArray [''%''])])))
     = Inl (URIError ''URI malformed'')
   \<and> body (orders (Some (QRecord [(''tag'', QArray [''%''])]))) = None
   \<and> bodyAsJsonString sample_platform
        (body (orders (Some (QRecord [(''tag'', QArray [''%''])])))) = Inr None"
  by (simp add: build_request_def sample_platform_def sample_Client_def new_Client_def
      orders_def bodyAsJsonString_def sample_new_URL_def append_query_def
      sample_decodeURIComponent_def)

text \<open>
  C10. A query given as a \<^verbatim>\<open>URLSearchParams\<close> instance adds nothing: the request built, and so
  the URL, is the one built with no query, and so is the outcome of the call.
\<close>

theorem URLSearchParams_query_ignored:
  "build_request P c (params\<lparr>query := Some (QURLSearchParams ps)\<rparr>)
     = build_request P c (params\<lparr>query := None\<rparr>)
   \<and> request P c (params\<lparr>query := Some (QURLSearchParams ps)\<rparr>)
     = request P c (params\<lparr>query := None\<rparr>)"
proof -
  have "append_query P url0 (Some (QURLSearchParams ps)) = append_query P url0 None" for url0
    by (simp add: append_query_def)
  then have "build_request P c (params\<lparr>query := Some (QURLSearchParams ps)\<rparr>)
      = build_request P c (params\<lparr>query := None\<rparr>)"
    by (simp add: build_request_def split: sum.split)
  then show ?thesis
    by (simp add: request_def)
qed

text \<open>
  C7. When the request is built from a query record (its keys distinct, as an object's
  are), the URL is the serialization of a \<open>URL\<close> whose entries under each key are those the
  parsed prefix and path held under that key, followed by what the loop appended: for an
  array value one entry per element, in array order, each the decoded element (so exactly
  as many as the array is long when prefix and path hold none under that key), and nothing
  for a value that is \<^verbatim>\<open>undefined\<close>. The serializer encodes the entries again.
\<close>

theorem query_array_entries:
  assumes "build_request P c params = Inr (u, init)"
    and "new_URL P (prefixUrl c @ path params) = Inr url0"
    and "query params = Some (QRecord kvs)"
    and "distinct (map fst kvs)"
  shows "\<exists>url. u = URL_toString P url
           \<and> (\<forall>key vals. (key, QArray vals) \<in> set kvs \<longrightarrow>
                 (\<exists>decoded. map (decodeURIComponent P) vals = map Inr decoded
                    \<and> length decoded = length vals
                    \<and> [kv \<leftarrow> searchParams url. fst kv = key]
                        = [kv \<leftarrow> searchParams url0. fst kv = key] @ map (Pair key) decoded
                    \<and> (key \<notin> fst ` set (searchParams url0) \<longrightarrow>
                          [kv \<leftarrow> searchParams url. fst kv = key] = map (Pair key) decoded)))
           \<and> (\<forall>key. (key, QUndefined) \<in> set kvs \<longrightarrow>
                 [kv \<leftarrow> searchParams url. fst kv = key]
                   = [kv \<leftarrow> searchParams url0. fst kv = key])"
proof -
  from assms(1,2) obtain url where u: "u = URL_toString P url"
    and "append_query P url0 (query params) = Inr url"
    unfolding build_request_Inr by auto
  with assms(3) have run: "append_entries P url0 kvs = Inr url"
    by (simp add: append_query_def)
  note facts = append_entries_Inr [OF run assms(4)]
  have arrays: "\<exists>decoded. map (decodeURIComponent P) vals = map Inr decoded
      \<and> length decoded = length vals
      \<and> [kv \<leftarrow> searchParams url. fst kv = key]
          = [kv \<leftarrow> searchParams url0. fst kv = key] @ map (Pair key) decoded
      \<and> (key \<notin> fst ` set (searchParams url0) \<longrightarrow>
            [kv \<leftarrow> searchParams url. fst kv = key] = map (Pair key) decoded)"
    if mem: "(key, QArray vals) \<in> set kvs" for key vals
  proof -
    from facts mem obtain new
      where own: "[kv \<leftarrow> searchParams url. fst kv = key]
                    = [kv \<leftarrow> searchParams url0. fst kv = key] @ map (Pair key) new"
        and dec: "map (decodeURIComponent P) vals = map Inr new"
      by blast
    from dec have "length new = length vals"
      by (metis length_map)
    moreover have "[kv \<leftarrow> searchParams url. fst kv = key] = map (Pair key) new"
      if "key \<notin> fst ` set (searchParams url0)"
    proof -
      from that have "[kv \<leftarrow> searchParams url0. fst kv = key] = []"
        by (auto simp add: filter_empty_conv)
      with own show ?thesis by simp
    qed
    ultimately show ?thesis using own dec by blast
  qed
  have undefineds: "[kv \<leftarrow> searchParams url. fst kv = key]
      = [kv \<leftarrow> searchParams url0. fst kv = key]"
    if "(key, QUndefined) \<in> set kvs" for key
    using facts that by fastforce
  from u arrays undefineds show ?thesis by blast
qed

lemma sample_orders_request:
  "build_request sample_platform (sample_Client hangs)
       (orders (Some (QRecord [(''tag'', QArray [''a%20b'', ''c'']), (''page'', QNumber 2),
                               (''skip'', QUndefined)])))
     = Inr (''https://api.example.com/orders?tag=a+b&tag=c&page=2'',
            \<lparr>init_method = ''GET'',
             init_headers = [(''access-key-id'', ''key''), (''secret-access-key'', ''secret''),
                             (''user-agent'', ''anteraja-client/1.0.0'')],
             init_body = None,
             init_agent = None\<rparr>)"
  by (simp add: build_request_def sample_platform_def sample_Client_def new_Client_def
      orders_def bodyAsJsonString_def sample_new_URL_def append_query_def
      sample_decodeURIComponent_def searchParams_append_def sample_URL_toString_def
      sample_number_toString_def decimal.simps request_headers_def)

theorem query_array_entries_witness:
  "\<exists>url. ''https://api.example.com/orders?tag=a+b&tag=c&page=2''
            = URL_toString sample_platform url
         \<and> [kv \<leftarrow> searchParams url. fst kv = ''tag''] = [(''tag'', ''a b''), (''tag'', ''c'')]
         \<and> [kv \<leftarrow> searchParams url. fst kv = ''skip''] = []"
proof -
  let ?kvs = "[(''tag'', QArray [''a%20b'', ''c'']), (''page'', QNumber (2::int)),
               (''skip'', QUndefined)]"
  let ?url0 = "\<lparr>location = ''https://api.example.com/orders'', searchParams = [], hash = []\<rparr>"
  have url0: "new_URL sample_platform
      (prefixUrl (sample_Client hangs) @ path (orders (Some (QRecord ?kvs)))) = Inr ?url0"
    by (simp add: sample_platform_def sample_Client_def new_Client_def orders_def
        sample_new_URL_def)
  have q: "query (orders (Some (QRecord ?kvs))) = Some (QRecord ?kvs)"
    by (simp add: orders_def)
  have d: "distinct (map fst ?kvs)"
    by simp
  from query_array_entries [OF sample_orders_request url0 q d]
  obtain url where u: "''https://api.example.com/orders?tag=a+b&tag=c&page=2''
        = URL_toString sample_platform url"
    and arrays: "\<forall>key vals. (key, QArray vals) \<in> set ?kvs \<longrightarrow>
        (\<exists>decoded. map (decodeURIComponent sample_platform) vals = map Inr decoded
           \<and> length decoded = length vals
           \<and> [kv \<leftarrow> searchParams url. fst kv = key]
               = [kv \<leftarrow> searchParams ?url0. fst kv = key] @ map (Pair key) decoded
           \<and> (key \<notin> fst ` set (searchParams ?url0) \<longrightarrow>
                 [kv \<leftarrow> searchParams url. fst kv = key] = map (Pair key) decoded))"
    and undefineds: "\<forall>key. (key, QUndefined) \<in> set ?kvs \<longrightarrow>
        [kv \<leftarrow> searchParams url. fst kv = key] = [kv \<leftarrow> searchParams ?url0. fst kv = key]"
    by blast
  have "(''tag'', QArray [''a%20b'', ''c'']) \<in> set ?kvs"
    by simp
  with arrays obtain decoded
    where dec: "map (decodeURIComponent sample_platform) [''a%20b'', ''c''] = map Inr decoded"
      and fresh: "''tag'' \<notin> fst ` set (searchParams ?url0) \<longrightarrow>
        [kv \<leftarrow> searchParams url. fst kv = ''tag''] = map (Pair ''tag'') decoded"
    by blast
  from fresh have tag: "[kv \<leftarrow> searchParams url. fst kv = ''tag''] = map (Pair ''tag'') decoded"
    by simp
  from dec have "map Inr decoded = [Inr ''a b'', Inr ''c'' :: js_error + string]"
    by (simp add: sample_platform_def sample_decodeURIComponent_def)
  then have "decoded = [''a b'', ''c'']"
    by (auto simp add: map_eq_Cons_conv)
  with tag have "[kv \<leftarrow> searchParams url. fst kv = ''tag''] = [(''tag'', ''a b''), (''tag'', ''c'')]"
    by simp
  moreover from undefineds have "[kv \<leftarrow> searchParams url. fst kv = ''skip''] = []"
    by simp
  ultimately show ?thesis using u by blast
qed

text \<open>
  C7 as stated fails where the path already holds an entry under the key: the array has
  one element and the URL holds two entries under \<^verbatim>\<open>tag\<close>.
\<close>

theorem query_array_entries_after_path_entries:
  "build_request sample_platform (sample_Client hangs) orders_tagged
     = Inr (''https://api.example.com/orders?tag=a&tag=b'',
            \<lparr>init_method = ''GET'',
             init_headers = [(''access-key-id'', ''key''), (''secret-access-key'', ''secret''),
                             (''user-agent'', ''anteraja-client/1.0.0'')],
             init_body = None,
             init_agent = None\<rparr>)
   \<and> query orders_tagged = Some (QRecord [(''tag'', QArray [''b''])])
   \<and> append_query sample_platform
        \<lparr>location = ''https://api.example.com/orders'', searchParams = [(''tag'', ''a'')],
         hash = []\<rparr>
        (query orders_tagged)
     = Inr \<lparr>location = ''https://api.example.com/orders'',
            searchParams = [(''tag'', ''a''), (''tag'', ''b'')], hash = []\<rparr>"
  by (simp add: build_request_def sample_platform_def sample_Client_def new_Client_def
      orders_tagged_def bodyAsJsonString_def sample_new_URL_def append_query_def
      sample_decodeURIComponent_def searchParams_append_def sample_URL_toString_def
      request_headers_def)

text \<open>
  C8. With no body, or with an empty one, the transport is given no body and the headers
  are the auth material with \<^verbatim>\<open>user-agent\<close>: the client sets no \<^verbatim>\<open>content-type\<close>, and the request
  has none unless the auth material holds one. With a body that has an entry, the
  transport is given what \<^verbatim>\<open>JSON.stringify\<close> returns for the body. When that is a string, it is
  the payload, unchanged, and \<^verbatim>\<open>content-type\<close> is \<^verbatim>\<open>application/json\<close>; the payload then parses back
  to the body whenever \<^verbatim>\<open>JSON.parse\<close> inverts \<^verbatim>\<open>JSON.stringify\<close> on that body. When it is
  \<^verbatim>\<open>undefined\<close>, there is no body and no \<^verbatim>\<open>content-type\<close> is set, as with no body.
\<close>

theorem request_body_and_content_type:
  assumes "build_request P c params = Inr (u, init)"
  shows "((body params = None \<or> body params = Some []) \<longrightarrow>
            init_body init = None
            \<and> init_headers init
                = AList.update ''user-agent'' (userAgent c) (case auth c of None \<Rightarrow> [] | Some a \<Rightarrow> a)
            \<and> ((\<forall>a. auth c = Some a \<longrightarrow> map_of a ''content-type'' = None) \<longrightarrow>
                  map_of (init_headers init) ''content-type'' = None))
       \<and> (\<forall>entries. body params = Some entries \<and> entries \<noteq> [] \<longrightarrow>
            (\<exists>serialized. JSON_stringify P entries = Inr serialized
               \<and> init_body init = serialized)
            \<and> (\<forall>payload. JSON_stringify P entries = Inr (Some payload) \<longrightarrow>
                  init_body init = Some payload
                  \<and> map_of (init_headers init) ''content-type'' = Some ''application/json''
                  \<and> (JSON_parse P payload = Inr (JObject entries) \<longrightarrow>
                        (\<exists>sent. init_body init = Some sent
                           \<and> JSON_parse P sent = Inr (JObject entries))))
            \<and> (JSON_stringify P entries = Inr None \<longrightarrow>
                  init_body init = None
                  \<and> init_headers init
                      = AList.update ''user-agent'' (userAgent c)
                          (case auth c of None \<Rightarrow> [] | Some a \<Rightarrow> a)))"
proof -
  from assms obtain bodyStr
    where ser: "bodyAsJsonString P (body params) = Inr bodyStr"
      and hs: "init_headers init = request_headers c bodyStr"
      and b: "init_body init = bodyStr"
    unfolding build_request_Inr by auto
  let ?plain = "AList.update ''user-agent'' (userAgent c) (case auth c of None \<Rightarrow> [] | Some a \<Rightarrow> a)"
  have plain: "init_headers init = ?plain" if "bodyStr = None"
    using that hs by (simp add: request_headers_def)
  have absent: "bodyStr = None" if "body params = None \<or> body params = Some []"
    using that ser by (auto simp add: bodyAsJsonString_def)
  have present: "JSON_stringify P entries = Inr bodyStr"
    if "body params = Some entries \<and> entries \<noteq> []" for entries
    using that ser by (auto simp add: bodyAsJsonString_def)
  show ?thesis
  proof (intro conjI allI impI)
    assume none: "body params = None \<or> body params = Some []"
    from absent [OF none] b show "init_body init = None" by simp
    from plain [OF absent [OF none]] show "init_headers init = ?plain" .
  next
    assume none: "body params = None \<or> body params = Some []"
      and bare: "\<forall>a. auth c = Some a \<longrightarrow> map_of a ''content-type'' = None"
    from plain [OF absent [OF none]] bare
    show "map_of (init_headers init) ''content-type'' = None"
      by (simp add: update_conv' split: option.split)
  next
    fix entries assume some: "body params = Some entries \<and> entries \<noteq> []"
    from present [OF some] b
    show "\<exists>serialized. JSON_stringify P entries = Inr serialized \<and> init_body init = serialized"
      by simp
  next
    fix entries payload
    assume some: "body params = Some entries \<and> entries \<noteq> []"
      and str: "JSON_stringify P entries = Inr (Some payload)"
    from present [OF some] str have sent: "bodyStr = Some payload" by simp
    with b show "init_body init = Some payload" by simp
    from sent hs show "map_of (init_headers init) ''content-type'' = Some ''application/json''"
      by (simp add: request_headers_def update_conv')
  next
    fix entries payload
    assume some: "body params = Some entries \<and> entries \<noteq> []"
      and str: "JSON_stringify P entries = Inr (Some payload)"
      and parses: "JSON_parse P payload = Inr (JObject entries)"
    from present [OF some] str have "bodyStr = Some payload" by simp
    with b parses show "\<exists>sent. init_body init = Some sent \<and> JSON_parse P sent = Inr (JObject entries)"
      by simp
  next
    fix entries
    assume some: "body params = Some entries \<and> entries \<noteq> []"
      and undef: "JSON_stringify P entries = Inr None"
    from present [OF some] undef have none: "bodyStr = None" by simp
    with b show "init_body init = None" by simp
    from plain [OF none] show "init_headers init = ?plain" .
  qed
qed

lemma sample_plain_orders_request:
  "build_request sample_platform (sample_Client hangs) (orders None)
     = Inr (''https://api.example.com/orders'',
            \<lparr>init_method = ''GET'',
             init_headers = [(''access-key-id'', ''key''), (''secret-access-key'', ''secret''),
                             (''user-agent'', ''anteraja-client/1.0.0'')],
             init_body = None, init_agent = None\<rparr>)"
  by (simp add: build_request_def sample_platform_def sample_Client_def new_Client_def
      orders_def bodyAsJsonString_def sample_new_URL_def append_query_def
      sample_URL_toString_def request_headers_def)

lemma sample_toJSON_request:
  "build_request sample_platform (sample_Client hangs) toJSON_field
     = Inr (''https://api.example.com/orders'',
            \<lparr>init_method = ''POST'',
             init_headers = [(''access-key-id'', ''key''), (''secret-access-key'', ''secret''),
                             (''user-agent'', ''anteraja-client/1.0.0'')],
             init_body = None, init_agent = None\<rparr>)"
  by (simp add: build_request_def sample_platform_def sample_Client_def new_Client_def
      toJSON_field_def bodyAsJsonString_def sample_JSON_stringify_def sample_new_URL_def
      append_query_def sample_URL_toString_def request_headers_def)

theorem request_body_and_content_type_witness:
  \<open>(\<exists>init. build_request sample_platform (sample_Client hangs) (orders None)
              = Inr (''https://api.example.com/orders'', init)
           \<and> init_body init = None
           \<and> map_of (init_headers init) ''content-type'' = None)
   \<and> (\<exists>init. build_request sample_platform (sample_Client hangs) serviceRates
              = Inr (''https://api.example.com/serviceRates'', init)
           \<and> init_body init = Some ''{"weight":2000}''
           \<and> map_of (init_headers init) ''content-type'' = Some ''application/json''
           \<and> (\<exists>sent. init_body init = Some sent
                 \<and> JSON_parse sample_platform sent = Inr (JObject [(''weight'', JNumber 2000)])))
   \<and> (\<exists>init. build_request sample_platform (sample_Client hangs) toJSON_field
              = Inr (''https://api.example.com/orders'', init)
           \<and> init_body init = None
           \<and> init_headers init = [(''access-key-id'', ''key''), (''secret-access-key'', ''secret''),
                                  (''user-agent'', ''anteraja-client/1.0.0'')])\<close>
proof -
  have none: "body (orders None :: int RequestParameters) = None"
    by (simp add: orders_def)
  have bare: "\<forall>a. auth (sample_Client hangs) = Some a \<longrightarrow> map_of a ''content-type'' = None"
    by (simp add: sample_Client_def new_Client_def)
  from request_body_and_content_type [OF sample_plain_orders_request] none bare
  have first: "\<exists>init. build_request sample_platform (sample_Client hangs) (orders None)
        = Inr (''https://api.example.com/orders'', init)
      \<and> init_body init = None
      \<and> map_of (init_headers init) ''content-type'' = None"
    using sample_plain_orders_request by blast
  have some: "body serviceRates = Some [(''weight'', JNumber 2000)]
      \<and> [(''weight'', JNumber (2000::int))] \<noteq> []"
    by (simp add: serviceRates_def)
  have str: \<open>JSON_stringify sample_platform [(''weight'', JNumber 2000)]
      = Inr (Some ''{"weight":2000}'')\<close>
    by (simp add: sample_platform_def sample_JSON_stringify_def)
  have parses: \<open>JSON_parse sample_platform ''{"weight":2000}''
      = Inr (JObject [(''weight'', JNumber 2000)])\<close>
    by (simp add: sample_platform_def sample_JSON_parse_def)
  from request_body_and_content_type [OF sample_serviceRates_request [of hangs]] some str parses
  have second: \<open>\<exists>init. build_request sample_platform (sample_Client hangs) serviceRates
        = Inr (''https://api.example.com/serviceRates'', init)
      \<and> init_body init = Some ''{"weight":2000}''
      \<and> map_of (init_headers init) ''content-type'' = Some ''application/json''
      \<and> (\<exists>sent. init_body init = Some sent
            \<and> JSON_parse sample_platform sent = Inr (JObject [(''weight'', JNumber 2000)]))\<close>
    using sample_serviceRates_request [of hangs] by blast
  have fn: "body toJSON_field = Some [(''toJSON'', JFunction ''() => undefined'')]
      \<and> [(''toJSON'', JFunction ''() => undefined'' :: int jsval)] \<noteq> []"
    by (simp add: toJSON_field_def)
  have undef: "JSON_stringify sample_platform [(''toJSON'', JFunction ''() => undefined'')]
      = Inr None"
    by (simp add: sample_platform_def sample_JSON_stringify_def)
  from request_body_and_content_type [OF sample_toJSON_request] fn undef
  have "init_body \<lparr>init_method = ''POST'',
        init_headers = [(''access-key-id'', ''key''), (''secret-access-key'', ''secret''),
                        (''user-agent'', ''anteraja-client/1.0.0'')],
        init_body = None, init_agent = None :: unit option\<rparr> = None"
    by blast
  with sample_toJSON_request
  have third: "\<exists>init. build_request sample_platform (sample_Client hangs) toJSON_field
        = Inr (''https://api.example.com/orders'', init)
      \<and> init_body init = None
      \<and> init_headers init = [(''access-key-id'', ''key''), (''secret-access-key'', ''secret''),
                             (''user-agent'', ''anteraja-client/1.0.0'')]"
    by simp
  from first second third show ?thesis by blast
qed

text \<open>
  C8 as stated fails in three places. A client whose auth material holds a \<^verbatim>\<open>content-type\<close>
  sends it with a call that has no body. A body with a field that holds \<^verbatim>\<open>undefined\<close> has an
  entry, is sent as \<^verbatim>\<open>{}\<close>, and that parses to the empty object, not to the body. A body whose
  \<^verbatim>\<open>toJSON\<close> returns \<^verbatim>\<open>undefined\<close> has an entry, and the transport is given no body and no
  \<^verbatim>\<open>content-type\<close>.
\<close>

theorem request_body_claim_fails:
  \<open>build_request sample_platform content_type_auth_Client (orders None)
     = Inr (''https://api.example.com/orders'',
            \<lparr>init_method = ''GET'',
             init_headers = [(''access-key-id'', ''key''), (''content-type'', ''text/plain''),
                             (''user-agent'', ''anteraja-client/1.0.0'')],
             init_body = None,
             init_agent = None\<rparr>)
   \<and> body (orders None :: int RequestParameters) = None
   \<and> build_request sample_platform (sample_Client hangs) undefined_field
     = Inr (''https://api.example.com/orders'',
            \<lparr>init_method = ''POST'',
             init_headers = [(''access-key-id'', ''key''), (''secret-access-key'', ''secret''),
                             (''user-agent'', ''anteraja-client/1.0.0''),
                             (''content-type'', ''application/json'')],
             init_body = Some ''{}'',
             init_agent = None\<rparr>)
   \<and> body undefined_field = Some [(''a'', JUndefined)]
   \<and> JSON_parse sample_platform ''{}'' = Inr (JObject [])
   \<and> JObject [] \<noteq> (JObject [(''a'', JUndefined)] :: int jsval)
   \<and> build_request sample_platform (sample_Client hangs) toJSON_field
     = Inr (''https://api.example.com/orders'',
            \<lparr>init_method = ''POST'',
             init_headers = [(''access-key-id'', ''key''), (''secret-access-key'', ''secret''),
                             (''user-agent'', ''anteraja-client/1.0.0'')],
             init_body = None,
             init_agent = None\<rparr>)
   \<and> body toJSON_field = Some [(''toJSON'', JFunction ''() => undefined'')]\<close>
  by (simp add: build_request_def sample_platform_def sample_Client_def new_Client_def
      content_type_auth_Client_def orders_def undefined_field_def toJSON_field_def
      bodyAsJsonString_def sample_JSON_stringify_def sample_new_URL_def
      append_query_def sample_URL_toString_def request_headers_def sample_JSON_parse_def)

section \<open>What the request operation throws\<close>

lemma isClientError_buildRequestError: "isClientError (buildRequestError P response bodyText)"
  by (simp add: buildRequestError_def new_APIResponseError_def new_UnknownHTTPResponseError_def
      split: option.split)

lemma try_block_Throws:
  assumes "try_block P c url init = Throws t"
  shows "isClientError t
       \<or> (\<exists>e. t = Raised e
             \<and> (fetch c url init = BeforeTimer (Rejects e)
                \<or> (\<exists>response. fetch c url init = BeforeTimer (Fulfils response)
                      \<and> (res_text response = Settles (Rejects e)
                         \<or> (\<exists>responseText. res_text response = Settles (Fulfils responseText)
                               \<and> ok response \<and> JSON_parse P responseText = Inl e)))))"
proof (cases "fetch c url init")
  case (BeforeTimer s)
  show ?thesis
  proof (cases s)
    case (Fulfils response)
    with BeforeTimer have run: "rejectAfterTimeout (fetch c url init) (timeoutMs c)
        = \<lparr>settled = Some (Fulfils response), timeoutId = Cleared\<rparr>"
      by (simp add: rejectAfterTimeout_BeforeTimer_Fulfils)
    show ?thesis
    proof (cases "res_text response")
      case NeverSettles
      with run assms show ?thesis by (simp add: try_block_def)
    next
      case (Settles r)
      show ?thesis
      proof (cases r)
        case (Rejects e)
        with Settles run assms have "t = Raised e"
          by (simp add: try_block_def catch_clause_rethrows)
        with Rejects Settles BeforeTimer Fulfils show ?thesis by simp
      next
        case inner: (Fulfils responseText)
        show ?thesis
        proof (cases "ok response")
          case False
          with inner Settles BeforeTimer Fulfils assms
          have "t = buildRequestError P response responseText"
            by (simp add: try_block_response)
          then show ?thesis by (simp add: isClientError_buildRequestError)
        next
          case True
          with inner Settles BeforeTimer Fulfils assms
          obtain e where "JSON_parse P responseText = Inl e" and "t = Raised e"
            by (auto simp add: try_block_response split: sum.splits)
          with True inner Settles BeforeTimer Fulfils show ?thesis by simp
        qed
      qed
    qed
  next
    case (Rejects e)
    with BeforeTimer assms have "t = Raised e"
      by (simp add: try_block_def rejectAfterTimeout_BeforeTimer_Rejects catch_clause_rethrows)
    with BeforeTimer Rejects show ?thesis by simp
  qed
next
  case (AfterTimer s)
  with assms have "t = new_RequestTimeoutError"
    by (simp add: try_block_def rejectAfterTimeout_AfterTimer catch_clause_rethrows)
  then show ?thesis by (simp add: new_RequestTimeoutError_def)
next
  case Never
  with assms have "t = new_RequestTimeoutError"
    by (simp add: try_block_def rejectAfterTimeout_Never catch_clause_rethrows)
  then show ?thesis by (simp add: new_RequestTimeoutError_def)
qed

text \<open>
  C5. Whatever \<open>request\<close> throws is one of the three client errors, or a value another
  party threw, passed on unchanged: the error of the body's serialization, of the \<open>URL\<close>
  constructor, of \<^verbatim>\<open>decodeURIComponent\<close> on an element of an array value of the query, the
  transport's rejection, the rejection of the response's text read, or the error of
  \<^verbatim>\<open>JSON.parse\<close> on the text of a response that is ok. A transport that rejects before the
  timer fires makes \<open>request\<close> throw its rejection.
\<close>

theorem request_throws_only:
  "(request P c params = Throws t \<longrightarrow>
      isClientError t
      \<or> (\<exists>e. t = Raised e
            \<and> ((\<exists>entries. body params = Some entries \<and> entries \<noteq> []
                    \<and> JSON_stringify P entries = Inl e)
               \<or> new_URL P (prefixUrl c @ path params) = Inl e
               \<or> (\<exists>kvs key vals. query params = Some (QRecord kvs)
                     \<and> (key, QArray vals) \<in> set kvs
                     \<and> (\<exists>val \<in> set vals. decodeURIComponent P val = Inl e))
               \<or> (\<exists>url init. build_request P c params = Inr (url, init)
                     \<and> (fetch c url init = BeforeTimer (Rejects e)
                        \<or> (\<exists>response. fetch c url init = BeforeTimer (Fulfils response)
                              \<and> (res_text response = Settles (Rejects e)
                                 \<or> (\<exists>responseText.
                                       res_text response = Settles (Fulfils responseText)
                                       \<and> ok response
                                       \<and> JSON_parse P responseText = Inl e))))))))
   \<and> (\<forall>url init. build_request P c params = Inr (url, init)
          \<and> fetch c url init = BeforeTimer (Rejects e')
          \<longrightarrow> request P c params = Throws (Raised e'))"
proof (intro conjI allI impI)
  assume thrown: "request P c params = Throws t"
  show "isClientError t
      \<or> (\<exists>e. t = Raised e
            \<and> ((\<exists>entries. body params = Some entries \<and> entries \<noteq> []
                    \<and> JSON_stringify P entries = Inl e)
               \<or> new_URL P (prefixUrl c @ path params) = Inl e
               \<or> (\<exists>kvs key vals. query params = Some (QRecord kvs)
                     \<and> (key, QArray vals) \<in> set kvs
                     \<and> (\<exists>val \<in> set vals. decodeURIComponent P val = Inl e))
               \<or> (\<exists>url init. build_request P c params = Inr (url, init)
                     \<and> (fetch c url init = BeforeTimer (Rejects e)
                        \<or> (\<exists>response. fetch c url init = BeforeTimer (Fulfils response)
                              \<and> (res_text response = Settles (Rejects e)
                                 \<or> (\<exists>responseText.
                                       res_text response = Settles (Fulfils responseText)
                                       \<and> ok response
                                       \<and> JSON_parse P responseText = Inl e)))))))"
  proof (cases "build_request P c params")
    case (Inl e)
    with thrown have t: "t = Raised e" by (simp add: request_def)
    from Inl consider
        (body) "bodyAsJsonString P (body params) = Inl e"
      | (url) "new_URL P (prefixUrl c @ path params) = Inl e"
      | (query) url0 where "append_query P url0 (query params) = Inl e"
      unfolding build_request_Inl by blast
    then have "(\<exists>entries. body params = Some entries \<and> entries \<noteq> []
          \<and> JSON_stringify P entries = Inl e)
        \<or> new_URL P (prefixUrl c @ path params) = Inl e
        \<or> (\<exists>kvs key vals. query params = Some (QRecord kvs)
              \<and> (key, QArray vals) \<in> set kvs
              \<and> (\<exists>val \<in> set vals. decodeURIComponent P val = Inl e))"
    proof cases
      case body
      then show ?thesis by (simp add: bodyAsJsonString_Inl)
    next
      case url
      then show ?thesis by simp
    next
      case query
      from append_query_Inl [OF this] show ?thesis by blast
    qed
    with t show ?thesis by blast
  next
    case (Inr built)
    obtain url init where built: "built = (url, init)" by (cases built)
    with Inr thrown have "try_block P c url init = Throws t"
      by (simp add: request_def)
    from try_block_Throws [OF this] Inr built show ?thesis by blast
  qed
next
  fix url init
  assume "build_request P c params = Inr (url, init)
      \<and> fetch c url init = BeforeTimer (Rejects e')"
  then show "request P c params = Throws (Raised e')"
    by (simp add: request_def try_block_def rejectAfterTimeout_BeforeTimer_Rejects
        catch_clause_rethrows)
qed

theorem request_throws_only_witness:
  "request sample_platform (sample_Client (fails (FetchError ''socket hang up''))) serviceRates
     = Throws (Raised (FetchError ''socket hang up''))
   \<and> request sample_platform (sample_Client (answers bad_gateway_response)) serviceRates
     = Throws (buildRequestError sample_platform bad_gateway_response ''Bad Gateway'')
   \<and> isClientError (buildRequestError sample_platform bad_gateway_response ''Bad Gateway'')"
proof -
  let ?E = "FetchError ''socket hang up''"
  have rejected: "build_request sample_platform (sample_Client (fails ?E)) serviceRates
        = Inr (''https://api.example.com/serviceRates'',
               \<lparr>init_method = ''POST'',
                init_headers = [(''access-key-id'', ''key''), (''secret-access-key'', ''secret''),
                                (''user-agent'', ''anteraja-client/1.0.0''),
                                (''content-type'', ''application/json'')],
                init_body = Some ''{\"weight\":2000}'',
                init_agent = None\<rparr>)
      \<and> fetch (sample_Client (fails ?E)) ''https://api.example.com/serviceRates''
           \<lparr>init_method = ''POST'',
            init_headers = [(''access-key-id'', ''key''), (''secret-access-key'', ''secret''),
                            (''user-agent'', ''anteraja-client/1.0.0''),
                            (''content-type'', ''application/json'')],
            init_body = Some ''{\"weight\":2000}'',
            init_agent = None\<rparr>
         = BeforeTimer (Rejects ?E)"
    using sample_serviceRates_request [of "fails ?E"]
    by (simp add: sample_Client_def new_Client_def fails_def)
  from request_throws_only [of sample_platform "sample_Client (fails ?E)" serviceRates _ ?E]
    rejected
  have first: "request sample_platform (sample_Client (fails ?E)) serviceRates
      = Throws (Raised ?E)"
    by blast
  have second: "request sample_platform (sample_Client (answers bad_gateway_response))
      serviceRates = Throws (buildRequestError sample_platform bad_gateway_response ''Bad Gateway'')"
    using sample_serviceRates_request [of "answers bad_gateway_response"]
    by (simp add: request_def try_block_response [where response = bad_gateway_response]
        sample_Client_def new_Client_def answers_def bad_gateway_response_def)
  from request_throws_only
      [of sample_platform "sample_Client (answers bad_gateway_response)" serviceRates
          "buildRequestError sample_platform bad_gateway_response ''Bad Gateway''"] second
  have "isClientError (buildRequestError sample_platform bad_gateway_response ''Bad Gateway'')
      \<or> (\<exists>e. buildRequestError sample_platform bad_gateway_response ''Bad Gateway'' = Raised e)"
    by blast
  then have "isClientError (buildRequestError sample_platform bad_gateway_response ''Bad Gateway'')"
    by (auto simp add: buildRequestError_def new_APIResponseError_def
        new_UnknownHTTPResponseError_def split: option.splits)
  with first second show ?thesis by blast
qed

text \<open>
  C5 as stated fails on the call of the repository's own test: the prefix
  \<^verbatim>\<open>your-base-url\<close> with the path is not a URL, the constructor throws, and \<open>request\<close> throws
  that error. It is none of the three client errors; the body was serialized without an
  error; no request was built, so there was no transport call, no text read and no parse.
\<close>

theorem request_throws_URL_error:
  \<open>request sample_platform test_Client test_serviceRates = Throws (Raised (TypeError ''Invalid URL''))
   \<and> \<not> isClientError (Raised (TypeError ''Invalid URL'') :: (js_error, int) thrown)
   \<and> bodyAsJsonString sample_platform (body test_serviceRates)
       = Inr (Some ''{"origin":"31.73.06","destination":"31.73.06","weight":2000}'')
   \<and> build_request sample_platform test_Client test_serviceRates = Inl (TypeError ''Invalid URL'')\<close>
  by (simp add: request_def build_request_def sample_platform_def test_Client_def
      new_Client_def test_serviceRates_def bodyAsJsonString_def sample_JSON_stringify_def
      sample_new_URL_def)

subsection \<open>Two calls\<close>






section \<open>Further properties\<close>

text \<open>
  A response that is ok and whose text parses makes \<open>request\<close> return the parsed value.
\<close>

theorem request_returns_parsed_body:
  assumes "build_request P c params = Inr (url, init)"
    and "fetch c url init = BeforeTimer (Fulfils response)"
    and "res_text response = Settles (Fulfils responseText)"
    and "ok response"
    and "JSON_parse P responseText = Inr responseJson"
  shows "request P c params = Returns responseJson"
  using assms by (simp add: request_def try_block_response)

theorem request_returns_parsed_body_witness:
  "ok ok_response
   \<and> request sample_platform (sample_Client (answers ok_response)) serviceRates
       = Returns (JObject [(''ok'', JBoolean True)])"
  using request_returns_parsed_body
    [of sample_platform "sample_Client (answers ok_response)" serviceRates
        _ _ ok_response _ "JObject [(''ok'', JBoolean True)]",
     OF sample_serviceRates_request]
  by (simp add: sample_Client_def new_Client_def answers_def ok_response_def
      sample_platform_def sample_JSON_parse_def)

text \<open>
  The structured-error parser finds no match exactly when the text does not parse to an
  object, or the object has no string \<open>message\<close>, or its \<open>code\<close> is not a string for which
  \<^verbatim>\<open>code in apiErrorCodes\<close> holds.
\<close>

theorem parseAPIErrorResponseBody_None_iff:
  "parseAPIErrorResponseBody P bodyText = None \<longleftrightarrow>
     (\<forall>props. JSON_parse P bodyText \<noteq> Inr (JObject props))
     \<or> (\<exists>props. JSON_parse P bodyText = Inr (JObject props)
           \<and> ((\<forall>m. map_of props ''message'' \<noteq> Some (JString m))
              \<or> (\<forall>k. map_of props ''code'' = Some (JString k) \<longrightarrow> \<not> key_in k apiErrorCodes)))"
proof (cases "JSON_parse P bodyText")
  case (Inl e)
  then show ?thesis by (simp add: parseAPIErrorResponseBody_def)
next
  case (Inr parsed)
  show ?thesis
  proof (cases parsed)
    case (JObject props)
    have message: "typeof (get_property parsed ''message'') = ''string''
        \<longleftrightarrow> (\<exists>m. map_of props ''message'' = Some (JString m))"
      using JObject
      by (cases "map_of props ''message''"; cases "the (map_of props ''message'')") simp_all
    have code: "isAPIErrorCode (get_property parsed ''code'')
        \<longleftrightarrow> (\<exists>k. map_of props ''code'' = Some (JString k) \<and> key_in k apiErrorCodes)"
      using JObject
      by (cases "map_of props ''code''"; cases "the (map_of props ''code'')") simp_all
    show ?thesis
    proof (cases "typeof (get_property parsed ''message'') = ''string''
        \<and> isAPIErrorCode (get_property parsed ''code'')")
      case True
      then obtain m k where "map_of props ''message'' = Some (JString m)"
        and "map_of props ''code'' = Some (JString k)" and "key_in k apiErrorCodes"
        using message code by blast
      with Inr JObject show ?thesis
        by (simp add: parseAPIErrorResponseBody_def)
    next
      case False
      with Inr JObject have "parseAPIErrorResponseBody P bodyText = None"
        by (auto simp add: parseAPIErrorResponseBody_def)
      moreover from False message code
      have "(\<forall>m. map_of props ''message'' \<noteq> Some (JString m))
          \<or> (\<forall>k. map_of props ''code'' = Some (JString k) \<longrightarrow> \<not> key_in k apiErrorCodes)"
        by blast
      ultimately show ?thesis using Inr JObject by simp
    qed
  qed (use Inr in \<open>simp_all add: parseAPIErrorResponseBody_def\<close>)
qed

theorem parseAPIErrorResponseBody_None_iff_witness:
  \<open>parseAPIErrorResponseBody sample_platform ''<html>'' = None
   \<and> parseAPIErrorResponseBody sample_platform ''{"ok":true}'' = None\<close>
proof -
  have "\<forall>props. JSON_parse sample_platform ''<html>'' \<noteq> Inr (JObject props)"
    by (simp add: sample_platform_def sample_JSON_parse_def)
  with parseAPIErrorResponseBody_None_iff [of sample_platform "''<html>''"]
  have first: "parseAPIErrorResponseBody sample_platform ''<html>'' = None"
    by blast
  have \<open>JSON_parse sample_platform ''{"ok":true}'' = Inr (JObject [(''ok'', JBoolean True)])
      \<and> (\<forall>m. map_of [(''ok'', JBoolean True)] ''message'' \<noteq> Some (JString m :: int jsval))\<close>
    by (simp add: sample_platform_def sample_JSON_parse_def)
  with parseAPIErrorResponseBody_None_iff [of sample_platform \<open>''{"ok":true}''\<close>]
  have \<open>parseAPIErrorResponseBody sample_platform ''{"ok":true}'' = None\<close>
    by blast
  with first show ?thesis by blast
qed

end
